theory Spec2Isabelle
  imports Complex_Main "HOL-Library.Sublist" "HOL-Library.AList"
begin

section \<open>JavaScript values\<close>

text \<open>
  The server receives its request body from \<^verbatim>\<open>bodyParser.json\<close>, so every value the
  program handles is a parsed JSON value or \<^verbatim>\<open>undefined\<close> (the result of reading a
  property that is not there).

  \<^item> Numbers are integers, as the counts \<^verbatim>\<open>total\<close>, \<^verbatim>\<open>totalFull\<close> and the array
    lengths are, in the range that JavaScript represents exactly and prints in
    plain decimal notation. Fractions and larger magnitudes are outside the model.
  \<^item> Strings are byte strings holding the UTF-8 encoding of the text, as the source
    files do. Concatenation and substring search on them agree with JavaScript's;
    \<^verbatim>\<open>length\<close> and indexing of a string agree on ASCII text.
  \<^item> An object is the list of its own properties, each written where it was first
    created; a parsed object has pairwise distinct keys. The program reads
    properties by key, and the order in which JavaScript enumerates them (keys
    that are array indices first, in ascending order) is not represented.
\<close>

datatype jsval =
    Undefined
  | Null
  | Bool bool
  | Num int
  | Str string
  | Arr "jsval list"
  | Obj "(string \<times> jsval) list"

text \<open>A thrown exception: the \<^verbatim>\<open>name\<close> and \<^verbatim>\<open>message\<close> of the error object.\<close>

datatype js_error = Error (name: string) (message: string)

abbreviation TypeError :: "string \<Rightarrow> js_error" where
  "TypeError msg \<equiv> Error ''TypeError'' msg"

text \<open>
  \<^verbatim>\<open>err.stack\<close> starts with the line \<^verbatim>\<open>name: message\<close>. The frame lines that
  follow it, which the route sends as well when \<^verbatim>\<open>NODE_ENV\<close> is \<^verbatim>\<open>development\<close>, name
  paths of the installation and are not modelled: \<open>stack\<close> is that first line.
\<close>

definition stack :: "js_error \<Rightarrow> string" where
  "stack e = name e @ '': '' @ message e"

text \<open>Sequencing of computations that may throw: the first exception wins.\<close>

definition and_then :: "'e + 'a \<Rightarrow> ('a \<Rightarrow> 'e + 'b) \<Rightarrow> 'e + 'b" where
  "and_then m f = (case m of Inl e \<Rightarrow> Inl e | Inr x \<Rightarrow> f x)"

text \<open>\<^verbatim>\<open>!v\<close> is \<open>\<not> truthy v\<close>; \<^verbatim>\<open>a || b\<close> is \<open>or_else a b\<close>.\<close>

fun truthy :: "jsval \<Rightarrow> bool" where
  "truthy Undefined = False"
| "truthy Null = False"
| "truthy (Bool b) = b"
| "truthy (Num n) = (n \<noteq> 0)"
| "truthy (Str s) = (s \<noteq> [])"
| "truthy (Arr xs) = True"
| "truthy (Obj kvs) = True"

definition or_else :: "jsval \<Rightarrow> jsval \<Rightarrow> jsval" where
  "or_else a b = (if truthy a then a else b)"

text \<open>Decimal digits of a natural number, as \<^verbatim>\<open>String(n)\<close> prints them.\<close>

fun string_of_nat :: "nat \<Rightarrow> string" where
  "string_of_nat n =
     (if n < 10 then [''0123456789'' ! n]
      else string_of_nat (n div 10) @ [''0123456789'' ! (n mod 10)])"

declare string_of_nat.simps [simp del]

text \<open>
  \<^verbatim>\<open>ToString\<close>, which a template literal applies to each substituted value and a
  computed member access \<^verbatim>\<open>acc[key]\<close> applies to the key. An array is joined with
  commas, \<^verbatim>\<open>null\<close> and \<^verbatim>\<open>undefined\<close> elements printing as nothing. A parsed object
  prints as \<^verbatim>\<open>[object Object]\<close> through the inherited \<^verbatim>\<open>toString\<close>; when it has an
  own property \<^verbatim>\<open>toString\<close>, that property is a JSON value and so not callable, and
  neither \<^verbatim>\<open>valueOf\<close> (own and not callable, or inherited and returning the object)
  yields a primitive: the conversion throws.
\<close>

fun to_string :: "jsval \<Rightarrow> js_error + string"
  and join_elements :: "jsval list \<Rightarrow> js_error + string" where
  "to_string Undefined = Inr ''undefined''"
| "to_string Null = Inr ''null''"
| "to_string (Bool b) = Inr (if b then ''true'' else ''false'')"
| "to_string (Num n) =
     Inr (if n < 0 then ''-'' @ string_of_nat (nat (- n)) else string_of_nat (nat n))"
| "to_string (Str s) = Inr s"
| "to_string (Arr xs) = join_elements xs"
| "to_string (Obj kvs) =
     (if ''toString'' \<in> fst ` set kvs
      then Inl (TypeError ''Cannot convert object to primitive value'')
      else Inr ''[object Object]'')"
| "join_elements [] = Inr []"
| "join_elements (x # xs) =
     and_then (if x = Undefined \<or> x = Null then Inr [] else to_string x) (\<lambda>s.
       if xs = [] then Inr s
       else and_then (join_elements xs) (\<lambda>r. Inr (s @ '','' @ r)))"

text \<open>
  Reading the property \<open>k\<close> of a value. Reading from \<^verbatim>\<open>undefined\<close> or \<^verbatim>\<open>null\<close>
  throws (the message is V8's wording); a key that is not an own property reads as
  \<^verbatim>\<open>undefined\<close>. The program reads only the fixed keys written in its text, none of
  which names a member of a built-in prototype other than \<^verbatim>\<open>length\<close>; the methods
  it calls (\<^verbatim>\<open>map\<close>, \<^verbatim>\<open>reduce\<close>, \<^verbatim>\<open>filter\<close>, \<^verbatim>\<open>includes\<close>, \<^verbatim>\<open>join\<close>) are modelled at
  their call sites below.
\<close>

definition cannot_read :: "string \<Rightarrow> string \<Rightarrow> js_error" where
  "cannot_read what k =
     TypeError (''Cannot read properties of '' @ what @ '' (reading '' @
                [CHR 0x27] @ k @ [CHR 0x27] @ '')'')"

fun get_prop :: "jsval \<Rightarrow> string \<Rightarrow> js_error + jsval" where
  "get_prop Undefined k = Inl (cannot_read ''undefined'' k)"
| "get_prop Null k = Inl (cannot_read ''null'' k)"
| "get_prop (Obj kvs) k = Inr (case map_of kvs k of Some v \<Rightarrow> v | None \<Rightarrow> Undefined)"
| "get_prop (Arr xs) k =
     Inr (if k = ''length'' then Num (int (length xs))
          else case map_of (zip (map string_of_nat [0..<length xs]) xs) k of
                 Some v \<Rightarrow> v | None \<Rightarrow> Undefined)"
| "get_prop (Str s) k =
     Inr (if k = ''length'' then Num (int (length s))
          else case map_of (zip (map string_of_nat [0..<length s]) s) k of
                 Some c \<Rightarrow> Str [c] | None \<Rightarrow> Undefined)"
| "get_prop (Bool b) k = Inr Undefined"
| "get_prop (Num n) k = Inr Undefined"

text \<open>
  \<^verbatim>\<open>const { k } = v\<close>: as a property read, with V8's message for a value that
  cannot be destructured. \<open>src\<close> is the text V8 prints for the destructured
  expression: its source text in a declaration, and a rendering of the value for
  a parameter pattern \<^verbatim>\<open>({ k }) => ...\<close>.
\<close>

definition destructure :: "string \<Rightarrow> jsval \<Rightarrow> string \<Rightarrow> js_error + jsval" where
  "destructure src v k =
     (if v = Undefined \<or> v = Null
      then Inl (TypeError (''Cannot destructure property '' @ [CHR 0x27] @ k @ [CHR 0x27] @
                  '' of '' @ [CHR 0x27] @ src @ [CHR 0x27] @ '' as it is '' @
                  (if v = Null then ''null'' else ''undefined'') @ ''.''))
      else get_prop v k)"

definition destructure_parameter :: "jsval \<Rightarrow> string \<Rightarrow> js_error + jsval" where
  "destructure_parameter v k =
     destructure (if v = Null then ''object null'' else ''undefined'') v k"

text \<open>
  \<^verbatim>\<open>{...v}\<close>: the own enumerable properties of \<open>v\<close>, in order. Nothing is copied
  from \<^verbatim>\<open>undefined\<close>, \<^verbatim>\<open>null\<close>, a number or a boolean.
\<close>

fun spread :: "jsval \<Rightarrow> (string \<times> jsval) list" where
  "spread (Obj kvs) = kvs"
| "spread (Arr xs) = zip (map string_of_nat [0..<length xs]) xs"
| "spread (Str s) = zip (map string_of_nat [0..<length s]) (map (\<lambda>c. Str [c]) s)"
| "spread _ = []"

section \<open>Array methods\<close>

text \<open>
  \<^verbatim>\<open>xs.map((x, i) => ...)\<close> and \<^verbatim>\<open>xs.reduce((acc, x) => ..., init)\<close> on a list, with
  callbacks that may throw: the elements are visited in order and the first
  exception ends the loop.
\<close>

fun map_indexed :: "(nat \<Rightarrow> 'a \<Rightarrow> 'e + 'b) \<Rightarrow> nat \<Rightarrow> 'a list \<Rightarrow> 'e + 'b list" where
  "map_indexed f i [] = Inr []"
| "map_indexed f i (x # xs) =
     and_then (f i x) (\<lambda>y. and_then (map_indexed f (Suc i) xs) (\<lambda>ys. Inr (y # ys)))"

fun reduce_from :: "('b \<Rightarrow> 'a \<Rightarrow> 'e + 'b) \<Rightarrow> 'b \<Rightarrow> 'a list \<Rightarrow> 'e + 'b" where
  "reduce_from f acc [] = Inr acc"
| "reduce_from f acc (x # xs) = and_then (f acc x) (\<lambda>acc'. reduce_from f acc' xs)"

fun filter_checked :: "('a \<Rightarrow> 'e + bool) \<Rightarrow> 'a list \<Rightarrow> 'e + 'a list" where
  "filter_checked p [] = Inr []"
| "filter_checked p (x # xs) =
     and_then (p x) (\<lambda>keep. and_then (filter_checked p xs) (\<lambda>ys.
       Inr (if keep then x # ys else ys)))"

text \<open>
  Calling the array method \<open>m\<close> on a value that is not an array: reading the
  method throws on \<^verbatim>\<open>undefined\<close> and \<^verbatim>\<open>null\<close>; on every other value the property
  is \<^verbatim>\<open>undefined\<close> or a JSON value, and calling it throws. \<open>src\<close> is the source
  text of the callee's object, which V8 prints in the message.
\<close>

definition not_callable :: "string \<Rightarrow> string \<Rightarrow> jsval \<Rightarrow> js_error" where
  "not_callable src m v =
     (case get_prop v m of
        Inl e \<Rightarrow> e
      | Inr _ \<Rightarrow> TypeError (src @ ''.'' @ m @ '' is not a function''))"

definition array_map ::
  "string \<Rightarrow> (nat \<Rightarrow> jsval \<Rightarrow> js_error + 'b) \<Rightarrow> jsval \<Rightarrow> js_error + 'b list" where
  "array_map src f v =
     (case v of Arr xs \<Rightarrow> map_indexed f 0 xs | _ \<Rightarrow> Inl (not_callable src ''map'' v))"

definition array_reduce ::
  "string \<Rightarrow> ('b \<Rightarrow> jsval \<Rightarrow> js_error + 'b) \<Rightarrow> 'b \<Rightarrow> jsval \<Rightarrow> js_error + 'b" where
  "array_reduce src f init v =
     (case v of Arr xs \<Rightarrow> reduce_from f init xs | _ \<Rightarrow> Inl (not_callable src ''reduce'' v))"

section \<open>The accumulator object of the fold\<close>

text \<open>
  The fold of \<^verbatim>\<open>src/mcp-server.js\<close> (lines 29 to 32) starts from the object literal
  \<^verbatim>\<open>{}\<close> and assigns \<^verbatim>\<open>acc[item.nombreId] = item.valor\<close>. Such an object has own
  properties (listed in the order of their creation, which is not the order of
  enumeration when a key is an array index; the program reads them by key) and a
  prototype, at first \<^verbatim>\<open>Object.prototype\<close>. Assignment creates or
  overwrites an own property, except for the key \<^verbatim>\<open>__proto__\<close>: as long as the
  accessor of \<^verbatim>\<open>Object.prototype\<close> is the first \<^verbatim>\<open>__proto__\<close> found along the
  prototype chain, assigning to that key calls the accessor's setter, which replaces
  the prototype by an object or \<^verbatim>\<open>null\<close> and ignores every other value.
\<close>

datatype prototype = Object_prototype | No_prototype | Proto jsval

record plain_object =
  own_props :: "(string \<times> jsval) list"
  proto :: prototype

definition empty_object :: plain_object where
  "empty_object = \<lparr>own_props = [], proto = Object_prototype\<rparr>"

definition set_prototype_of :: "plain_object \<Rightarrow> jsval \<Rightarrow> plain_object" where
  "set_prototype_of acc v =
     (case v of
        Obj kvs \<Rightarrow> acc\<lparr>proto := Proto v\<rparr>
      | Arr xs \<Rightarrow> acc\<lparr>proto := Proto v\<rparr>
      | Null \<Rightarrow> acc\<lparr>proto := No_prototype\<rparr>
      | _ \<Rightarrow> acc)"

definition reaches_proto_setter :: "plain_object \<Rightarrow> bool" where
  "reaches_proto_setter acc =
     (''__proto__'' \<notin> fst ` set (own_props acc) \<and>
      (case proto acc of
         Object_prototype \<Rightarrow> True
       | No_prototype \<Rightarrow> False
       | Proto (Obj kvs) \<Rightarrow> ''__proto__'' \<notin> fst ` set kvs
       | Proto _ \<Rightarrow> True))"

definition assign :: "plain_object \<Rightarrow> string \<Rightarrow> jsval \<Rightarrow> plain_object" where
  "assign acc k v =
     (if k = ''__proto__'' \<and> reaches_proto_setter acc then set_prototype_of acc v
      else acc\<lparr>own_props := AList.update k v (own_props acc)\<rparr>)"

text \<open>
  Reading \<^verbatim>\<open>est.detalles.k\<close>: the own property, else the property of the prototype
  that an earlier \<^verbatim>\<open>__proto__\<close> assignment installed, else \<^verbatim>\<open>undefined\<close>. The keys
  the program reads (\<^verbatim>\<open>calle\<close>, \<^verbatim>\<open>altura\<close>, \<^verbatim>\<open>permiso\<close>, \<^verbatim>\<open>horario\<close>, \<^verbatim>\<open>lado\<close>) name no
  member of \<^verbatim>\<open>Object.prototype\<close> or \<^verbatim>\<open>Array.prototype\<close>.
\<close>

definition get_detalle :: "plain_object \<Rightarrow> string \<Rightarrow> jsval" where
  "get_detalle acc k =
     (case map_of (own_props acc) k of
        Some v \<Rightarrow> v
      | None \<Rightarrow>
          (case proto acc of
             Proto p \<Rightarrow> (case get_prop p k of Inr v \<Rightarrow> v | Inl e \<Rightarrow> Undefined)
           | _ \<Rightarrow> Undefined))"

section \<open>The normalizer of \<^verbatim>\<open>src/mcp-server.js\<close>\<close>

text \<open>
  The callback of the fold, lines 29 to 32. The key expression \<^verbatim>\<open>item.nombreId\<close>
  is read first, then \<^verbatim>\<open>item.valor\<close>; the key is converted to a property key.
\<close>

definition attribute_step :: "plain_object \<Rightarrow> jsval \<Rightarrow> js_error + plain_object" where
  "attribute_step acc item =
     and_then (get_prop item ''nombreId'') (\<lambda>nombreId.
     and_then (get_prop item ''valor'') (\<lambda>valor.
     and_then (to_string nombreId) (\<lambda>k.
       Inr (assign acc k valor))))"

text \<open>
  The object \<^verbatim>\<open>{ ...est, detalles: contenido }\<close>: the copied own properties of the
  instance, and \<^verbatim>\<open>detalles\<close>, which replaces a copied property of that name.
\<close>

record estacionamiento =
  est_props :: "(string \<times> jsval) list"
  detalles :: plain_object

text \<open>The callback of \<^verbatim>\<open>data.instancias.map\<close>, lines 28 to 38.\<close>

definition normalize_instance :: "jsval \<Rightarrow> js_error + estacionamiento" where
  "normalize_instance est =
     and_then (get_prop est ''contenido'') (\<lambda>c.
     and_then (get_prop c ''contenido'') (\<lambda>cc.
     and_then (array_reduce ''est.contenido.contenido'' attribute_step empty_object cc)
       (\<lambda>contenido.
       Inr \<lparr>est_props = spread est, detalles = contenido\<rparr>)))"

section \<open>The prompt of \<^verbatim>\<open>src/mcp-server.js\<close>\<close>

text \<open>
  A template literal: literal text, and substitutions \<^verbatim>\<open>${e}\<close>. The substituted
  expressions are evaluated and converted to strings from left to right.
\<close>

datatype part = Lit string | Subst "js_error + jsval"

fun template :: "part list \<Rightarrow> js_error + string" where
  "template [] = Inr []"
| "template (Lit s # ps) = and_then (template ps) (\<lambda>r. Inr (s @ r))"
| "template (Subst m # ps) =
     and_then m (\<lambda>v. and_then (to_string v) (\<lambda>s. and_then (template ps) (\<lambda>r. Inr (s @ r))))"

text \<open>The six constants of lines 48 to 53.\<close>

record campos =
  calle :: jsval
  altura :: jsval
  permiso :: jsval
  horario :: jsval
  lado :: jsval
  distancia :: jsval

definition campos_of :: "estacionamiento \<Rightarrow> campos" where
  "campos_of est =
     \<lparr>calle = or_else (get_detalle (detalles est) ''calle'') (Str ''Calle no especificada''),
      altura = or_else (get_detalle (detalles est) ''altura'') (Str ''S/N''),
      permiso = or_else (get_detalle (detalles est) ''permiso'') (Str ''Sin datos''),
      horario = or_else (get_detalle (detalles est) ''horario'') (Str ''Sin horario''),
      lado = or_else (get_detalle (detalles est) ''lado'') (Str ''''),
      distancia =
        or_else (case map_of (est_props est) ''distancia'' of Some v \<Rightarrow> v | None \<Rightarrow> Undefined)
          (Str ''N/D'')\<rparr>"

text \<open>The callback of \<^verbatim>\<open>estacionamientos.map\<close>, lines 47 to 61.\<close>

definition render_block :: "nat \<Rightarrow> estacionamiento \<Rightarrow> js_error + string" where
  "render_block i est =
     (let c = campos_of est in
      template
        [Lit (
           [CHR 0x0A, CHR 0xF0, CHR 0x9F, CHR 0x93, CHR 0x8D] @ '' ''),
         Subst (Inr (Num (int i + 1))),
         Lit (
           ''. ''),
         Subst (Inr (calle c)),
         Lit (
           '' ''),
         Subst (Inr (altura c)),
         Lit (
           '' (''),
         Subst (Inr (lado c)),
         Lit (
           '')'' @ [CHR 0x0A] @ ''- Tipo: ''),
         Subst (Inr (permiso c)),
         Lit (
           [CHR 0x0A] @ ''- Horario: ''),
         Subst (Inr (horario c)),
         Lit (
           [CHR 0x0A] @ ''- Distancia: ''),
         Subst (Inr (distancia c)),
         Lit (
           '' metros'' @ [CHR 0x0A])])"

definition prompt_preamble :: string where
  "prompt_preamble =
     ''Como experto en tr'' @ [CHR 0xC3, CHR 0xA1] @
     ''nsito de CABA, analiza estos estacionamientos en formato claro y'' @
     '' estructurado:'' @ [CHR 0x0A, CHR 0x0A] @ ''**Datos generales:**'' @ [CHR 0x0A] @
     ''- Total encontrados: ''"

definition prompt_available :: string where
  "prompt_available =
     [CHR 0x0A] @ ''- Disponibles para estacionar: ''"

definition prompt_detail :: string where
  "prompt_detail =
     [CHR 0x0A, CHR 0x0A] @ ''**Detalle por ubicaci'' @ [CHR 0xC3, CHR 0xB3] @ ''n:**'' @
     [CHR 0x0A]"

definition prompt_format :: string where
  "prompt_format =
     [CHR 0x0A, CHR 0x0A] @ ''**Formato requerido para la respuesta:**'' @ [CHR 0x0A] @
     ''1. '' @ [CHR 0xF0, CHR 0x9F, CHR 0x85, CHR 0xBF, CHR 0xEF, CHR 0xB8, CHR 0x8F] @
     '' RESUMEN: Breve resumen de disponibilidad'' @ [CHR 0x0A] @ ''2. '' @
     [CHR 0xE2, CHR 0x9C, CHR 0x85] @
     '' UBICACIONES PERMITIDAS: Lista clara de calles y horarios donde'' @
     '' se puede estacionar'' @ [CHR 0x0A] @ ''3. '' @
     [CHR 0xF0, CHR 0x9F, CHR 0x9A, CHR 0xAB] @
     '' RESTRICCIONES: Zonas prohibidas o con limitaciones'' @ [CHR 0x0A] @ ''4. '' @
     [CHR 0xF0, CHR 0x9F, CHR 0x92, CHR 0xA1] @ '' RECOMENDACI'' @ [CHR 0xC3, CHR 0x93] @
     ''N: Mejor opci'' @ [CHR 0xC3, CHR 0xB3] @ ''n basada en distancia y disponibilidad'' @
     [CHR 0x0A] @ ''5. '' @ [CHR 0xF0, CHR 0x9F, CHR 0x93, CHR 0x8C] @
     '' OBSERVACIONES: Cualquier dato adicional relevante'' @ [CHR 0x0A, CHR 0x0A] @
     ''**S'' @ [CHR 0xC3, CHR 0xA9] @
     '' conciso pero preciso, usando emojis para mejor legibilidad.**''"

text \<open>The template literal of lines 40 to 70.\<close>

definition build_prompt :: "jsval \<Rightarrow> estacionamiento list \<Rightarrow> js_error + string" where
  "build_prompt data estacionamientos =
     template
       [Lit prompt_preamble,
        Subst (get_prop data ''total''),
        Lit prompt_available,
        Subst (get_prop data ''totalFull''),
        Lit prompt_detail,
        Subst (and_then (map_indexed render_block 0 estacionamientos)
                 (\<lambda>blocks. Inr (Str (concat blocks)))),
        Lit prompt_format]"

section \<open>The completion service and the handler of \<^verbatim>\<open>src/mcp-server.js\<close>\<close>

text \<open>
  \<^verbatim>\<open>openai.chat.completions.create\<close> is the one call that leaves the process. It is a
  parameter of the model: given the request it either throws an error or returns
  the response object of the service. Every call is recorded as an event, and so
  is every call of a tool's handler by the route, so that "is never invoked" is a
  statement about the events of a run.
\<close>

record chat_message =
  role :: string
  content :: string

record chat_request =
  model :: string
  messages :: "chat_message list"
  temperature :: rat

type_synonym completion_service = "chat_request \<Rightarrow> js_error + jsval"

datatype event = Handler_called string jsval | Completion_requested chat_request

type_synonym js_object = "(string \<times> jsval) list"

definition system_instruction :: string where
  "system_instruction =
     ''Eres un asistente especializado en movilidad urbana de Buenos'' @
     '' Aires. Proporciona informaci'' @ [CHR 0xC3, CHR 0xB3] @
     ''n clara y estructurada con emojis relevantes.''"

text \<open>The argument of \<^verbatim>\<open>create\<close>, lines 73 to 83.\<close>

definition chat_request_of :: "string \<Rightarrow> string \<Rightarrow> chat_request" where
  "chat_request_of system prompt =
     \<lparr>model = ''openai/gpt-3.5-turbo'',
      messages = [\<lparr>role = ''system'', content = system\<rparr>,
                  \<lparr>role = ''user'', content = prompt\<rparr>],
      temperature = 3 / 10\<rparr>"

definition text_block :: "jsval \<Rightarrow> jsval" where
  "text_block t = Obj [(''type'', Str ''text''), (''text'', t)]"

definition no_spots_text :: string where
  "no_spots_text =
     [CHR 0xF0, CHR 0x9F, CHR 0x9A, CHR 0xAB] @
     '' No se encontraron estacionamientos disponibles en la zona.''"

definition no_spots :: js_object where
  "no_spots = [(''content'', Arr [text_block (Str no_spots_text)])]"

text \<open>
  \<^verbatim>\<open>e.detalles.permiso?.includes(needle)\<close>, the callback of the two filters of
  lines 92 to 95: \<^verbatim>\<open>undefined\<close> (falsy) when \<^verbatim>\<open>permiso\<close> is \<^verbatim>\<open>undefined\<close> or
  \<^verbatim>\<open>null\<close>, the substring test on a string, the membership test on an array, and an
  exception on every other value, which has no method \<^verbatim>\<open>includes\<close>.
\<close>

definition permiso_includes :: "string \<Rightarrow> estacionamiento \<Rightarrow> js_error + bool" where
  "permiso_includes needle e =
     (case get_detalle (detalles e) ''permiso'' of
        Undefined \<Rightarrow> Inr False
      | Null \<Rightarrow> Inr False
      | Str s \<Rightarrow> Inr (sublist needle s)
      | Arr xs \<Rightarrow> Inr (Str needle \<in> set xs)
      | _ \<Rightarrow> Inl (TypeError ''e.detalles.permiso?.includes is not a function''))"

text \<open>The statements of the \<^verbatim>\<open>try\<close> block after the call has returned, lines 85 to 97.\<close>

definition analysis_result ::
  "jsval \<Rightarrow> estacionamiento list \<Rightarrow> jsval \<Rightarrow> js_error + js_object" where
  "analysis_result data estacionamientos response =
     and_then (get_prop response ''choices'') (\<lambda>choices.
     and_then (get_prop choices ''0'') (\<lambda>choice.
     and_then (get_prop choice ''message'') (\<lambda>msg.
     and_then (get_prop msg ''content'') (\<lambda>analysis.
     and_then (get_prop data ''total'') (\<lambda>total.
     and_then (filter_checked (permiso_includes ''PERMITIDO'') estacionamientos) (\<lambda>permitidos.
     and_then (filter_checked (permiso_includes ''PROHIBIDO'') estacionamientos) (\<lambda>prohibidos.
       Inr [(''content'', Arr [text_block analysis]),
            (''metadata'', Obj
               [(''totalEstacionamientos'', total),
                (''estacionamientosPermitidos'', Num (int (length permitidos))),
                (''estacionamientosProhibidos'', Num (int (length prohibidos)))])])))))))"

definition error_prefix :: string where
  "error_prefix =
     [CHR 0xE2, CHR 0x9A, CHR 0xA0, CHR 0xEF, CHR 0xB8, CHR 0x8F] @
     '' Error al analizar los estacionamientos: ''"

text \<open>The object the \<^verbatim>\<open>catch\<close> block returns, lines 98 to 107.\<close>

definition error_result :: "js_error \<Rightarrow> js_object" where
  "error_result error =
     [(''content'', Arr [text_block (Str (error_prefix @ message error))]),
      (''error'', Bool True)]"

text \<open>
  The handler of the tool \<^verbatim>\<open>analizar-estacionamiento\<close>, lines 15 to 108. It returns
  the object it resolves to, or the exception it rejects with, and the events of
  the run. Writing to the console is not modelled.
\<close>

definition handler :: "completion_service \<Rightarrow> jsval \<Rightarrow> (js_error + js_object) \<times> event list" where
  "handler create input =
     (case destructure_parameter input ''data'' of
        Inl e \<Rightarrow> (Inl e, [])
      | Inr data \<Rightarrow>
     (case get_prop data ''instancias'' of
        Inl e \<Rightarrow> (Inl e, [])
      | Inr instancias \<Rightarrow>
          if \<not> truthy instancias \<or> get_prop instancias ''length'' = Inr (Num 0)
          then (Inr no_spots, [])
          else
            (case and_then (array_map ''data.instancias'' (\<lambda>i. normalize_instance) instancias)
                    (\<lambda>estacionamientos.
                  and_then (build_prompt data estacionamientos) (\<lambda>prompt.
                    Inr (estacionamientos, prompt))) of
               Inl e \<Rightarrow> (Inl e, [])
             | Inr (estacionamientos, prompt) \<Rightarrow>
                 (Inr (case and_then (create (chat_request_of system_instruction prompt))
                              (analysis_result data estacionamientos) of
                         Inr result \<Rightarrow> result
                       | Inl error \<Rightarrow> error_result error),
                  [Completion_requested (chat_request_of system_instruction prompt)]))))"

section \<open>The handler of \<^verbatim>\<open>src/unnamed/part_000\<close>\<close>

text \<open>
  The second server file reads flat fields of each instance and has no fold. Its
  definitions carry the suffix \<open>part000\<close>.
\<close>

definition system_instruction_part000 :: string where
  "system_instruction_part000 =
     ''Eres un asistente especializado en movilidad urbana de Buenos Aires. S'' @
     [CHR 0xC3, CHR 0xA9] @ '' conciso pero '' @ [CHR 0xC3, CHR 0xBA] @ ''til.''"

definition no_spots_part000 :: js_object where
  "no_spots_part000 =
     [(''content'', Arr [text_block (Str
        ''No se encontraron estacionamientos disponibles en la zona.'')])]"

text \<open>\<^verbatim>\<open>${est.k || fallback}\<close>, lines 33 to 37 of \<^verbatim>\<open>part_000\<close>.\<close>

definition field_or :: "jsval \<Rightarrow> string \<Rightarrow> string \<Rightarrow> part" where
  "field_or est k fallback =
     Subst (and_then (get_prop est k) (\<lambda>v. Inr (or_else v (Str fallback))))"

text \<open>The callback of \<^verbatim>\<open>data.instancias.map\<close>, lines 32 to 38 of \<^verbatim>\<open>part_000\<close>.\<close>

definition render_block_part000 :: "nat \<Rightarrow> jsval \<Rightarrow> js_error + string" where
  "render_block_part000 i est =
     template
       [Lit (
          [CHR 0x0A]),
        Subst (Inr (Num (int i + 1))),
        Lit (
          ''. ''),
        field_or est ''nombre'' ''Sin nombre'',
        Lit (
          [CHR 0x0A] @ ''- Direcci'' @ [CHR 0xC3, CHR 0xB3] @ ''n: ''),
        field_or est ''domicilio'' ''No especificada'',
        Lit (
          [CHR 0x0A] @ ''- Tarifa: ''),
        field_or est ''tarifa'' ''No especificada'',
        Lit (
          [CHR 0x0A] @ ''- Capacidad: ''),
        field_or est ''capacidad'' ''?'',
        Lit (
          [CHR 0x0A] @ ''- Disponibles: ''),
        field_or est ''disponibles'' ''?'',
        Lit (
          [CHR 0x0A])]"

definition prompt_preamble_part000 :: string where
  "prompt_preamble_part000 =
     ''Como experto en tr'' @ [CHR 0xC3, CHR 0xA1] @
     ''nsito de CABA, analiza estos estacionamientos:'' @ [CHR 0x0A] @
     ''- Total encontrados: ''"

definition prompt_available_part000 :: string where
  "prompt_available_part000 =
     [CHR 0x0A] @ ''- Disponibles: ''"

definition prompt_detail_part000 :: string where
  "prompt_detail_part000 =
     [CHR 0x0A, CHR 0x0A] @ ''Detalles por estacionamiento:'' @ [CHR 0x0A]"

definition prompt_format_part000 :: string where
  "prompt_format_part000 =
     [CHR 0x0A, CHR 0x0A] @ ''Responde con:'' @ [CHR 0x0A] @ ''1. RESUMEN: 1 l'' @
     [CHR 0xC3, CHR 0xAD] @ ''nea con disponibilidad general'' @ [CHR 0x0A] @
     ''2. RECOMENDACI'' @ [CHR 0xC3, CHR 0x93] @ ''N: Estacionamiento m'' @
     [CHR 0xC3, CHR 0xA1] @ ''s conveniente'' @ [CHR 0x0A] @
     ''3. ADVERTENCIAS: Si hay restricciones importantes'' @ [CHR 0x0A] @
     ''4. DETALLES: Info adicional relevante'' @ [CHR 0x0A] @
     ''5. CALLES: direcciones de calles donde esta permitido o prohibido''"

text \<open>The template literal of lines 27 to 45 of \<^verbatim>\<open>part_000\<close>.\<close>

definition build_prompt_part000 :: "jsval \<Rightarrow> jsval \<Rightarrow> js_error + string" where
  "build_prompt_part000 data instancias =
     template
       [Lit prompt_preamble_part000,
        Subst (get_prop data ''total''),
        Lit prompt_available_part000,
        Subst (get_prop data ''totalFull''),
        Lit prompt_detail_part000,
        Subst (and_then (array_map ''data.instancias'' render_block_part000 instancias)
                 (\<lambda>blocks. Inr (Str (concat blocks)))),
        Lit prompt_format_part000]"

definition error_prefix_part000 :: string where
  "error_prefix_part000 =
     [CHR 0xE2, CHR 0x9A, CHR 0xA0, CHR 0xEF, CHR 0xB8, CHR 0x8F] @ '' Error al analizar: ''"

text \<open>The object the \<^verbatim>\<open>catch\<close> block of \<^verbatim>\<open>part_000\<close> returns, lines 67 to 75.\<close>

definition error_result_part000 :: "js_error \<Rightarrow> js_object" where
  "error_result_part000 error =
     [(''content'', Arr [text_block (Str (error_prefix_part000 @ message error))])]"

text \<open>The statements of its \<^verbatim>\<open>try\<close> block after the call has returned, lines 61 to 66.\<close>

definition analysis_result_part000 :: "jsval \<Rightarrow> js_error + js_object" where
  "analysis_result_part000 response =
     and_then (get_prop response ''choices'') (\<lambda>choices.
     and_then (get_prop choices ''0'') (\<lambda>choice.
     and_then (get_prop choice ''message'') (\<lambda>msg.
     and_then (get_prop msg ''content'') (\<lambda>analysis.
       Inr [(''content'', Arr [text_block analysis])]))))"

text \<open>The handler of \<^verbatim>\<open>part_000\<close>, lines 15 to 76.\<close>

definition handler_part000 ::
  "completion_service \<Rightarrow> jsval \<Rightarrow> (js_error + js_object) \<times> event list" where
  "handler_part000 create input =
     (case destructure_parameter input ''data'' of
        Inl e \<Rightarrow> (Inl e, [])
      | Inr data \<Rightarrow>
     (case get_prop data ''instancias'' of
        Inl e \<Rightarrow> (Inl e, [])
      | Inr instancias \<Rightarrow>
          if \<not> truthy instancias \<or> get_prop instancias ''length'' = Inr (Num 0)
          then (Inr no_spots_part000, [])
          else
            (case build_prompt_part000 data instancias of
               Inl e \<Rightarrow> (Inl e, [])
             | Inr prompt \<Rightarrow>
                 (Inr (case and_then (create (chat_request_of system_instruction_part000 prompt))
                              analysis_result_part000 of
                         Inr result \<Rightarrow> result
                       | Inl error \<Rightarrow> error_result_part000 error),
                  [Completion_requested
                     (chat_request_of system_instruction_part000 prompt)]))))"

section \<open>The route \<^verbatim>\<open>POST /mcp-tool/:toolName\<close>\<close>

text \<open>
  The registry \<^verbatim>\<open>tools\<close> is a \<^verbatim>\<open>Map\<close> from tool names to handlers, filled once when
  the module is loaded: a list of pairs with distinct names, in insertion order.
\<close>

type_synonym tool = "completion_service \<Rightarrow> jsval \<Rightarrow> (js_error + js_object) \<times> event list"

definition tools :: "(string \<times> tool) list" where
  "tools = [(''analizar-estacionamiento'', handler)]"

definition tools_part000 :: "(string \<times> tool) list" where
  "tools_part000 = [(''analizar-estacionamiento'', handler_part000)]"

text \<open>What \<^verbatim>\<open>res.status(s).json(b)\<close> sends; \<^verbatim>\<open>res.json(b)\<close> sends it with status 200.\<close>

record response =
  status :: nat
  body :: js_object

definition bad_request :: js_object where
  "bad_request =
     [(''error'', Str ''Formato incorrecto. Se espera { input: { data: {...} } }''),
      (''ejemplo'', Obj [(''input'', Obj [(''data'', Obj
         [(''instancias'', Arr []), (''total'', Num 0), (''totalFull'', Num 0)])])])]"

definition bad_request_part000 :: js_object where
  "bad_request_part000 =
     [(''error'', Str ''Formato incorrecto. Se espera { input: { data: {...} } }'')]"

definition not_found :: "(string \<times> tool) list \<Rightarrow> js_object" where
  "not_found registry =
     [(''error'', Str ''Herramienta no encontrada''),
      (''herramientasDisponibles'', Arr (map (\<lambda>(toolName, t). Str toolName) registry))]"

text \<open>\<^verbatim>\<open>{ success: true, ...result }\<close>: each copied property is assigned in turn.\<close>

definition success :: "js_object \<Rightarrow> js_object" where
  "success result = fold (\<lambda>(k, v). AList.update k v) result [(''success'', Bool True)]"

text \<open>
  The body of the 500 response, lines 169 to 173; \<open>node_env\<close> is
  \<^verbatim>\<open>process.env.NODE_ENV\<close>.
\<close>

definition internal_error :: "jsval \<Rightarrow> js_error \<Rightarrow> js_object" where
  "internal_error node_env err =
     [(''error'', Str ''Error interno al procesar la solicitud''),
      (''detalle'', Str (message err)),
      (''stack'', if node_env = Str ''development'' then Str (stack err) else Undefined)]"

definition internal_error_part000 :: "js_error \<Rightarrow> js_object" where
  "internal_error_part000 err =
     [(''error'', Str ''Error interno al procesar la solicitud''),
      (''detalle'', Str (message err))]"

text \<open>
  The route handler of \<^verbatim>\<open>src/mcp-server.js\<close>, lines 129 to 175, with the registry,
  the completion service and \<^verbatim>\<open>process.env.NODE_ENV\<close> as parameters. It returns the
  response it sends, or the exception that escapes it (the destructuring of
  \<^verbatim>\<open>req.body\<close> is outside the \<^verbatim>\<open>try\<close>), and the events of the run.
\<close>

definition post_mcp_tool ::
  "jsval \<Rightarrow> (string \<times> tool) list \<Rightarrow> completion_service \<Rightarrow> string \<Rightarrow> jsval
     \<Rightarrow> (js_error + response) \<times> event list" where
  "post_mcp_tool node_env registry create toolName req_body =
     (case destructure ''req.body'' req_body ''input'' of
        Inl e \<Rightarrow> (Inl e, [])
      | Inr input \<Rightarrow>
          if \<not> truthy input \<or> \<not> truthy (case get_prop input ''data'' of Inr d \<Rightarrow> d | Inl e \<Rightarrow> Undefined)
          then (Inr \<lparr>status = 400, body = bad_request\<rparr>, [])
          else
            (case map_of registry toolName of
               None \<Rightarrow> (Inr \<lparr>status = 404, body = not_found registry\<rparr>, [])
             | Some t \<Rightarrow>
                 (case t create input of
                    (Inr result, events) \<Rightarrow>
                      (Inr \<lparr>status = 200, body = success result\<rparr>,
                       Handler_called toolName input # events)
                  | (Inl err, events) \<Rightarrow>
                      (Inr \<lparr>status = 500, body = internal_error node_env err\<rparr>,
                       Handler_called toolName input # events))))"

text \<open>The route handler of \<^verbatim>\<open>part_000\<close>, lines 88 to 121.\<close>

definition post_mcp_tool_part000 ::
  "(string \<times> tool) list \<Rightarrow> completion_service \<Rightarrow> string \<Rightarrow> jsval
     \<Rightarrow> (js_error + response) \<times> event list" where
  "post_mcp_tool_part000 registry create toolName req_body =
     (case destructure ''req.body'' req_body ''input'' of
        Inl e \<Rightarrow> (Inl e, [])
      | Inr input \<Rightarrow>
          if \<not> truthy input \<or> \<not> truthy (case get_prop input ''data'' of Inr d \<Rightarrow> d | Inl e \<Rightarrow> Undefined)
          then (Inr \<lparr>status = 400, body = bad_request_part000\<rparr>, [])
          else
            (case map_of registry toolName of
               None \<Rightarrow> (Inr \<lparr>status = 404, body = not_found registry\<rparr>, [])
             | Some t \<Rightarrow>
                 (case t create input of
                    (Inr result, events) \<Rightarrow>
                      (Inr \<lparr>status = 200, body = result\<rparr>,
                       Handler_called toolName input # events)
                  | (Inl err, events) \<Rightarrow>
                      (Inr \<lparr>status = 500, body = internal_error_part000 err\<rparr>,
                       Handler_called toolName input # events))))"

section \<open>Shapes of the input\<close>

text \<open>
  An item of the attribute list, as the route \<^verbatim>\<open>/ejemplo\<close> shows it (lines 206 to
  210): \<^verbatim>\<open>{ nombreId: k, valor: v }\<close>; and an instance of the nested variant, which
  holds the list under \<^verbatim>\<open>contenido.contenido\<close> beside its other properties.
\<close>

definition attribute :: "string \<Rightarrow> jsval \<Rightarrow> jsval" where
  "attribute k v = Obj [(''nombreId'', Str k), (''valor'', v)]"

definition nested_instance :: "jsval list \<Rightarrow> (string \<times> jsval) list \<Rightarrow> jsval" where
  "nested_instance items others =
     Obj ((''contenido'', Obj [(''contenido'', Arr items)]) # others)"

text \<open>
  What the fold reads from an arbitrary item: the property key that
  \<^verbatim>\<open>item.nombreId\<close> converts to, if reading and converting it do not throw, and
  \<^verbatim>\<open>item.valor\<close>.
\<close>

definition attribute_key :: "jsval \<Rightarrow> string option" where
  "attribute_key item =
     (case get_prop item ''nombreId'' of
        Inr nombreId \<Rightarrow> (case to_string nombreId of Inr k \<Rightarrow> Some k | Inl e \<Rightarrow> None)
      | Inl e \<Rightarrow> None)"

definition attribute_valor :: "jsval \<Rightarrow> jsval" where
  "attribute_valor item = (case get_prop item ''valor'' of Inr v \<Rightarrow> v | Inl e \<Rightarrow> Undefined)"

text \<open>The array \<^verbatim>\<open>est.contenido.contenido\<close> of an instance, if it has one.\<close>

definition attribute_list :: "jsval \<Rightarrow> jsval list option" where
  "attribute_list est =
     (case get_prop est ''contenido'' of
        Inr c \<Rightarrow> (case get_prop c ''contenido'' of Inr (Arr items) \<Rightarrow> Some items | _ \<Rightarrow> None)
      | Inl e \<Rightarrow> None)"



text \<open>A completion service that fails on every request, as when the network is down.\<close>

definition service_down :: completion_service where
  "service_down request = Inl (Error ''APIConnectionError'' ''Connection error.'')"

text \<open>The request body \<^verbatim>\<open>{ input: { data: data } }\<close>.\<close>

definition request_body :: "jsval \<Rightarrow> jsval" where
  "request_body data = Obj [(''input'', Obj [(''data'', data)])]"

section \<open>Example inputs\<close>

text \<open>
  The scenario of the specification: one instance of the nested variant with its
  five attributes and a distance, and the prompt it yields, written out.
\<close>

definition scenario_instance :: jsval where
  "scenario_instance =
     nested_instance
       [attribute ''calle'' (Str ''ECHAGUE, PEDRO''),
        attribute ''altura'' (Str ''1301-1400''),
        attribute ''permiso'' (Str ''PERMITIDO ESTACIONAR''),
        attribute ''horario'' (Str ''24 HORAS''),
        attribute ''lado'' (Str ''derecho'')]
       [(''distancia'', Str ''4.85'')]"

definition scenario_data :: jsval where
  "scenario_data =
     Obj [(''instancias'', Arr [scenario_instance]), (''total'', Num 1), (''totalFull'', Num 1)]"

definition scenario_record :: estacionamiento where
  "scenario_record =
     \<lparr>est_props = spread scenario_instance,
      detalles =
        \<lparr>own_props =
           [(''calle'', Str ''ECHAGUE, PEDRO''), (''altura'', Str ''1301-1400''),
            (''permiso'', Str ''PERMITIDO ESTACIONAR''), (''horario'', Str ''24 HORAS''),
            (''lado'', Str ''derecho'')],
         proto = Object_prototype\<rparr>\<rparr>"

definition scenario_block :: string where
  "scenario_block =
     [CHR 0x0A, CHR 0xF0, CHR 0x9F, CHR 0x93, CHR 0x8D] @
     '' 1. ECHAGUE, PEDRO 1301-1400 (derecho)'' @ [CHR 0x0A] @
     ''- Tipo: PERMITIDO ESTACIONAR'' @ [CHR 0x0A] @ ''- Horario: 24 HORAS'' @ [CHR 0x0A] @
     ''- Distancia: 4.85 metros'' @ [CHR 0x0A]"

definition scenario_prompt :: string where
  "scenario_prompt =
     prompt_preamble @ ''1'' @ prompt_available @ ''1'' @ prompt_detail @
     scenario_block @ prompt_format"

text \<open>An instance that binds \<^verbatim>\<open>calle\<close> twice.\<close>

definition duplicated_instance :: jsval where
  "duplicated_instance =
     nested_instance
       [attribute ''calle'' (Str ''ECHAGUE, PEDRO''), attribute ''altura'' (Str ''1301-1400''),
        attribute ''calle'' (Str ''URQUIZA, GRAL.'')]
       [(''distancia'', Str ''4.85'')]"

text \<open>An instance that binds \<^verbatim>\<open>__proto__\<close> twice.\<close>

definition proto_instance :: jsval where
  "proto_instance =
     nested_instance
       [attribute ''__proto__'' (Str ''a''), attribute ''__proto__'' (Str ''b'')] []"

text \<open>A query result without instances.\<close>

definition empty_data :: jsval where
  "empty_data = Obj [(''instancias'', Arr []), (''total'', Num 0), (''totalFull'', Num 0)]"

text \<open>
  A query result of the flat variant: an instance without \<^verbatim>\<open>tarifa\<close> and with
  \<^verbatim>\<open>disponibles\<close> zero, and the prompt \<^verbatim>\<open>part_000\<close> builds from it.
\<close>

definition flat_instance :: jsval where
  "flat_instance =
     Obj [(''nombre'', Str ''Garage Centro''), (''domicilio'', Str ''CORRIENTES 1234''),
          (''capacidad'', Num 40), (''disponibles'', Num 0)]"

definition flat_data :: jsval where
  "flat_data = Obj [(''instancias'', Arr [flat_instance]), (''total'', Num 1), (''totalFull'', Num 0)]"

definition flat_block :: string where
  "flat_block =
     [CHR 0x0A] @ ''1. Garage Centro'' @ [CHR 0x0A] @ ''- Direcci'' @ [CHR 0xC3, CHR 0xB3] @
     ''n: CORRIENTES 1234'' @ [CHR 0x0A] @ ''- Tarifa: No especificada'' @ [CHR 0x0A] @
     ''- Capacidad: 40'' @ [CHR 0x0A] @ ''- Disponibles: ?'' @ [CHR 0x0A]"

definition flat_prompt :: string where
  "flat_prompt =
     prompt_preamble_part000 @ ''1'' @ prompt_available_part000 @ ''0'' @
     prompt_detail_part000 @ flat_block @ prompt_format_part000"

text \<open>
  Instances with missing attributes: one that has \<^verbatim>\<open>calle\<close>, an attribute the
  prompt does not show and a distance, and one that has nothing the prompt shows.
\<close>

definition partial_instance :: jsval where
  "partial_instance =
     nested_instance
       [attribute ''calle'' (Str ''ECHAGUE, PEDRO''),
        attribute ''barrio'' (Str ''PARQUE PATRICIOS'')]
       [(''distancia'', Str ''4.85'')]"

definition sparse_instance :: jsval where
  "sparse_instance = nested_instance [attribute ''barrio'' (Str ''PARQUE PATRICIOS'')] []"

text \<open>
  An instance without \<^verbatim>\<open>calle\<close> whose attribute \<^verbatim>\<open>__proto__\<close> holds an object with a
  property \<^verbatim>\<open>calle\<close>.
\<close>

definition proto_calle_instance :: jsval where
  "proto_calle_instance =
     nested_instance [attribute ''__proto__'' (Obj [(''calle'', Str ''DESDE PROTO'')])] []"



text \<open>A completion service that answers every request with one choice.\<close>

definition service_ok :: completion_service where
  "service_ok request =
     Inr (Obj [(''choices'', Arr [Obj [(''message'', Obj [(''content'', Str ''Resumen'')])]])])"


section \<open>Basic facts\<close>

lemma and_then_Inl [simp]: "and_then (Inl e) f = Inl e"
  by (simp add: and_then_def)

lemma and_then_Inr [simp]: "and_then (Inr x) f = f x"
  by (simp add: and_then_def)

lemma and_then_eq_Inr: "and_then m f = Inr y \<longleftrightarrow> (\<exists>x. m = Inr x \<and> f x = Inr y)"
  by (cases m) auto

lemma get_prop_defined: "get_prop v k = Inr w \<Longrightarrow> v \<noteq> Undefined \<and> v \<noteq> Null"
  by (cases v) auto

lemma get_prop_total: "v \<noteq> Undefined \<Longrightarrow> v \<noteq> Null \<Longrightarrow> \<exists>w. get_prop v k = Inr w"
  by (cases v) auto

lemma destructure_get_prop: "get_prop v k = Inr w \<Longrightarrow> destructure src v k = Inr w"
  by (cases v) (auto simp: destructure_def)

lemma destructure_parameter_get_prop:
  "get_prop v k = Inr w \<Longrightarrow> destructure_parameter v k = Inr w"
  by (simp add: destructure_parameter_def destructure_get_prop)

section \<open>The fold over the attribute list\<close>

lemma attribute_step_Inr:
  "attribute_step acc item = Inr acc' \<longleftrightarrow>
     (\<exists>k. attribute_key item = Some k \<and> acc' = assign acc k (attribute_valor item))"
proof (cases "get_prop item ''nombreId''")
  case (Inl e)
  then show ?thesis by (simp add: attribute_step_def attribute_key_def)
next
  case (Inr n)
  then obtain v where v: "get_prop item ''valor'' = Inr v"
    using get_prop_defined get_prop_total by blast
  show ?thesis
    using Inr v
    by (cases "to_string n")
      (auto simp: attribute_step_def attribute_key_def attribute_valor_def)
qed

lemma attribute_step_key:
  "attribute_key item = Some k \<Longrightarrow>
     attribute_step acc item = Inr (assign acc k (attribute_valor item))"
  by (simp add: attribute_step_Inr)

lemma reduce_from_append:
  "reduce_from f acc (xs @ ys) = and_then (reduce_from f acc xs) (\<lambda>a. reduce_from f a ys)"
  by (induction xs arbitrary: acc) (auto simp: and_then_def split: sum.splits)

lemma reduce_attributes_total:
  "\<forall>item\<in>set items. attribute_key item \<noteq> None \<Longrightarrow>
     \<exists>d. reduce_from attribute_step acc items = Inr d"
proof (induction items arbitrary: acc)
  case Nil
  then show ?case by simp
next
  case (Cons item items)
  then obtain k where "attribute_key item = Some k" by auto
  then show ?case using Cons by (simp add: attribute_step_key)
qed

lemma own_props_assign_same:
  "k \<noteq> ''__proto__'' \<Longrightarrow> map_of (own_props (assign acc k v)) k = Some v"
  by (simp add: assign_def update_conv')

lemma own_props_assign_other:
  "k' \<noteq> k \<Longrightarrow> map_of (own_props (assign acc k v)) k' = map_of (own_props acc) k'"
  by (auto simp: assign_def update_conv' set_prototype_of_def split: jsval.splits)

lemma reduce_attributes_keeps:
  "reduce_from attribute_step acc items = Inr d \<Longrightarrow>
   \<forall>item\<in>set items. attribute_key item \<noteq> Some k \<Longrightarrow>
   map_of (own_props d) k = map_of (own_props acc) k"
proof (induction items arbitrary: acc)
  case Nil
  then show ?case by simp
next
  case (Cons item items)
  from Cons.prems(1) obtain acc' where step: "attribute_step acc item = Inr acc'"
    and rest: "reduce_from attribute_step acc' items = Inr d"
    by (auto simp: and_then_eq_Inr)
  from step obtain k' where k': "attribute_key item = Some k'"
    and acc': "acc' = assign acc k' (attribute_valor item)"
    by (auto simp: attribute_step_Inr)
  have "k \<noteq> k'" using Cons.prems(2) k' by auto
  then have "map_of (own_props acc') k = map_of (own_props acc) k"
    by (simp add: acc' own_props_assign_other)
  moreover have "map_of (own_props d) k = map_of (own_props acc') k"
    using Cons.IH [OF rest] Cons.prems(2) by simp
  ultimately show ?case by simp
qed

lemma normalize_nested:
  "attribute_list est = Some items \<Longrightarrow>
   normalize_instance est =
     and_then (reduce_from attribute_step empty_object items)
       (\<lambda>contenido. Inr \<lparr>est_props = spread est, detalles = contenido\<rparr>)"
  by (auto simp: attribute_list_def normalize_instance_def array_reduce_def
      split: sum.splits jsval.splits)

lemma attribute_list_nested [simp]:
  "attribute_list (nested_instance items others) = Some items"
  by (simp add: attribute_list_def nested_instance_def)

lemma attribute_key_attribute [simp]: "attribute_key (attribute k v) = Some k"
  by (simp add: attribute_key_def attribute_def)

lemma attribute_valor_attribute [simp]: "attribute_valor (attribute k v) = v"
  by (simp add: attribute_valor_def attribute_def)

section \<open>The empty result\<close>

text \<open>
  Claim C2. When \<^verbatim>\<open>instancias\<close> is absent or empty, the route answers with status
  200 and one text block whose text is the fixed sentence saying that no parking
  spots were found (after the emoji of line 22 in \<^verbatim>\<open>src/mcp-server.js\<close>, which also
  sets \<^verbatim>\<open>success: true\<close>; the bare sentence in \<^verbatim>\<open>part_000\<close>), and the only event of the
  run is the call of the handler: the completion service is not called, whatever
  it would have answered.
\<close>

theorem no_spots_without_completion:
  assumes "get_prop req_body ''input'' = Inr input" and "truthy input"
    and "get_prop input ''data'' = Inr data" and "truthy data"
    and "get_prop data ''instancias'' = Inr Undefined \<or>
         get_prop data ''instancias'' = Inr (Arr [])"
  shows "post_mcp_tool node_env tools create ''analizar-estacionamiento'' req_body =
           (Inr \<lparr>status = 200,
                 body =
                   [(''success'', Bool True),
                    (''content'',
                     Arr [Obj [(''type'', Str ''text''),
                               (''text'',
                                Str ([CHR 0xF0, CHR 0x9F, CHR 0x9A, CHR 0xAB] @
                                  '' No se encontraron estacionamientos disponibles en la zona.''))]])]\<rparr>,
            [Handler_called ''analizar-estacionamiento'' input])
       \<and> post_mcp_tool_part000 tools_part000 create ''analizar-estacionamiento'' req_body =
           (Inr \<lparr>status = 200,
                 body =
                   [(''content'',
                     Arr [Obj [(''type'', Str ''text''),
                               (''text'',
                                Str ''No se encontraron estacionamientos disponibles en la zona.'')]])]\<rparr>,
            [Handler_called ''analizar-estacionamiento'' input])"
proof -
  have h: "handler create input = (Inr no_spots, [])"
    using assms by (auto simp: handler_def destructure_parameter_get_prop)
  have h0: "handler_part000 create input = (Inr no_spots_part000, [])"
    using assms by (auto simp: handler_part000_def destructure_parameter_get_prop)
  have s: "success no_spots =
      [(''success'', Bool True),
       (''content'',
        Arr [Obj [(''type'', Str ''text''),
                  (''text'',
                   Str ([CHR 0xF0, CHR 0x9F, CHR 0x9A, CHR 0xAB] @
                     '' No se encontraron estacionamientos disponibles en la zona.''))]])]"
    by (simp add: success_def no_spots_def no_spots_text_def text_block_def)
  have s0: "no_spots_part000 =
      [(''content'',
        Arr [Obj [(''type'', Str ''text''),
                  (''text'',
                   Str ''No se encontraron estacionamientos disponibles en la zona.'')]])]"
    by (simp add: no_spots_part000_def text_block_def)
  have "post_mcp_tool node_env tools create ''analizar-estacionamiento'' req_body =
      (Inr \<lparr>status = 200, body = success no_spots\<rparr>,
       [Handler_called ''analizar-estacionamiento'' input])"
    using assms(1-4) h by (simp add: post_mcp_tool_def tools_def destructure_get_prop)
  moreover have
    "post_mcp_tool_part000 tools_part000 create ''analizar-estacionamiento'' req_body =
      (Inr \<lparr>status = 200, body = no_spots_part000\<rparr>,
       [Handler_called ''analizar-estacionamiento'' input])"
    using assms(1-4) h0
    by (simp add: post_mcp_tool_part000_def tools_part000_def destructure_get_prop)
  ultimately show ?thesis
    by (simp only: s s0 simp_thms)
qed

theorem no_spots_without_completion_witness:
  "get_prop (request_body empty_data) ''input'' = Inr (Obj [(''data'', empty_data)])
   \<and> get_prop empty_data ''instancias'' = Inr (Arr [])
   \<and> post_mcp_tool Undefined tools service_down ''analizar-estacionamiento''
         (request_body empty_data) =
       (Inr \<lparr>status = 200,
             body =
               [(''success'', Bool True),
                (''content'',
                 Arr [Obj [(''type'', Str ''text''),
                           (''text'',
                            Str ([CHR 0xF0, CHR 0x9F, CHR 0x9A, CHR 0xAB] @
                              '' No se encontraron estacionamientos disponibles en la zona.''))]])]\<rparr>,
        [Handler_called ''analizar-estacionamiento'' (Obj [(''data'', empty_data)])])
   \<and> post_mcp_tool_part000 tools_part000 service_down ''analizar-estacionamiento''
         (request_body empty_data) =
       (Inr \<lparr>status = 200,
             body =
               [(''content'',
                 Arr [Obj [(''type'', Str ''text''),
                           (''text'',
                            Str ''No se encontraron estacionamientos disponibles en la zona.'')]])]\<rparr>,
        [Handler_called ''analizar-estacionamiento'' (Obj [(''data'', empty_data)])])
   \<and> get_prop (Obj [(''total'', Num 0), (''totalFull'', Num 0)]) ''instancias'' = Inr Undefined
   \<and> post_mcp_tool Undefined tools service_down ''analizar-estacionamiento''
         (request_body (Obj [(''total'', Num 0), (''totalFull'', Num 0)])) =
       (Inr \<lparr>status = 200,
             body =
               [(''success'', Bool True),
                (''content'',
                 Arr [Obj [(''type'', Str ''text''),
                           (''text'',
                            Str ([CHR 0xF0, CHR 0x9F, CHR 0x9A, CHR 0xAB] @
                              '' No se encontraron estacionamientos disponibles en la zona.''))]])]\<rparr>,
        [Handler_called ''analizar-estacionamiento''
           (Obj [(''data'', Obj [(''total'', Num 0), (''totalFull'', Num 0)])])])"
  using no_spots_without_completion [of "request_body empty_data"
      "Obj [(''data'', empty_data)]" empty_data Undefined service_down]
    no_spots_without_completion [of
      "request_body (Obj [(''total'', Num 0), (''totalFull'', Num 0)])"
      "Obj [(''data'', Obj [(''total'', Num 0), (''totalFull'', Num 0)])]"
      "Obj [(''total'', Num 0), (''totalFull'', Num 0)]" Undefined service_down]
  by (simp add: request_body_def empty_data_def)

section \<open>Repeated attribute ids\<close>

text \<open>
  Claim C10, as amended. When the attribute list of an instance can be folded and
  an item with the key \<open>k\<close>, other than \<^verbatim>\<open>__proto__\<close>, is followed by no item with
  that key, then normalization succeeds and reading \<open>k\<close> from the folded attributes
  gives the \<^verbatim>\<open>valor\<close> of that item, whatever earlier items bound to \<open>k\<close>.
\<close>

theorem last_binding_wins:
  assumes "attribute_list est = Some (before @ item # after)"
    and "\<forall>i\<in>set (before @ item # after). attribute_key i \<noteq> None"
    and "attribute_key item = Some k"
    and "\<forall>i\<in>set after. attribute_key i \<noteq> Some k"
    and "k \<noteq> ''__proto__''"
  shows "\<exists>e. normalize_instance est = Inr e \<and> get_detalle (detalles e) k = attribute_valor item"
proof -
  obtain a where a: "reduce_from attribute_step empty_object before = Inr a"
    using reduce_attributes_total [of before] assms(2) by auto
  obtain d where d: "reduce_from attribute_step (assign a k (attribute_valor item)) after = Inr d"
    using reduce_attributes_total [of after] assms(2) by auto
  have fold: "reduce_from attribute_step empty_object (before @ item # after) = Inr d"
    using a d assms(3) by (simp add: reduce_from_append attribute_step_key)
  have "map_of (own_props d) k = Some (attribute_valor item)"
    using reduce_attributes_keeps [OF d assms(4)] assms(5) by (simp add: own_props_assign_same)
  then have "get_detalle d k = attribute_valor item"
    by (simp add: get_detalle_def)
  then show ?thesis
    using normalize_nested [OF assms(1)] fold by simp
qed

theorem last_binding_wins_witness:
  "attribute_list duplicated_instance =
     Some ([attribute ''calle'' (Str ''ECHAGUE, PEDRO''),
            attribute ''altura'' (Str ''1301-1400'')] @
           attribute ''calle'' (Str ''URQUIZA, GRAL.'') # [])
   \<and> (\<exists>e. normalize_instance duplicated_instance = Inr e \<and>
          get_detalle (detalles e) ''calle'' = Str ''URQUIZA, GRAL.'')"
  using last_binding_wins [of duplicated_instance
      "[attribute ''calle'' (Str ''ECHAGUE, PEDRO''), attribute ''altura'' (Str ''1301-1400'')]"
      "attribute ''calle'' (Str ''URQUIZA, GRAL.'')" "[]" "''calle''"]
  by (simp add: duplicated_instance_def)

text \<open>
  The claim as stated fails for the key \<^verbatim>\<open>__proto__\<close>: both assignments reach the
  setter of \<^verbatim>\<open>Object.prototype\<close>, which ignores a string, so the fold returns the
  empty object it started from and keeps neither \<^verbatim>\<open>valor\<close>.
\<close>

theorem proto_binding_is_dropped:
  "attribute_list proto_instance =
     Some [attribute ''__proto__'' (Str ''a''), attribute ''__proto__'' (Str ''b'')]
   \<and> normalize_instance proto_instance =
       Inr \<lparr>est_props = spread proto_instance, detalles = empty_object\<rparr>
   \<and> map_of (own_props empty_object) ''__proto__'' \<noteq> Some (Str ''b'')"
  by (simp add: proto_instance_def normalize_nested attribute_step_key assign_def
      reaches_proto_setter_def set_prototype_of_def empty_object_def)

section \<open>The scenario\<close>

lemma scenario_normalized: "normalize_instance scenario_instance = Inr scenario_record"
  by (simp add: scenario_instance_def scenario_record_def normalize_nested attribute_step_key
      assign_def empty_object_def)

lemma scenario_rendered: "render_block 0 scenario_record = Inr scenario_block"
  by (simp add: render_block_def campos_of_def get_detalle_def or_else_def
      scenario_record_def scenario_block_def scenario_instance_def nested_instance_def
      string_of_nat.simps)

lemma scenario_build_prompt: "build_prompt scenario_data [scenario_record] = Inr scenario_prompt"
  by (simp add: build_prompt_def scenario_rendered scenario_data_def scenario_prompt_def
      string_of_nat.simps)

lemma scenario_handler:
  "handler create (Obj [(''data'', scenario_data)]) =
     (Inr (case and_then (create (chat_request_of system_instruction scenario_prompt))
                  (analysis_result scenario_data [scenario_record]) of
             Inr result \<Rightarrow> result
           | Inl error \<Rightarrow> error_result error),
      [Completion_requested (chat_request_of system_instruction scenario_prompt)])"
proof -
  have "get_prop scenario_data ''instancias'' = Inr (Arr [scenario_instance])"
    by (simp add: scenario_data_def)
  then show ?thesis
    by (simp add: handler_def destructure_parameter_def destructure_def array_map_def
        scenario_normalized
        scenario_build_prompt)
qed

text \<open>
  Claim C7. For the scenario input the handler sends exactly one request, whose
  user message is \<open>scenario_prompt\<close>, and that prompt contains each of the six
  values as a substring.
\<close>

theorem scenario_prompt_contains_values:
  "snd (handler create (Obj [(''data'', scenario_data)])) =
     [Completion_requested (chat_request_of system_instruction scenario_prompt)]
   \<and> sublist ''ECHAGUE, PEDRO'' scenario_prompt
   \<and> sublist ''1301-1400'' scenario_prompt
   \<and> sublist ''PERMITIDO ESTACIONAR'' scenario_prompt
   \<and> sublist ''24 HORAS'' scenario_prompt
   \<and> sublist ''derecho'' scenario_prompt
   \<and> sublist ''4.85'' scenario_prompt"
proof -
  let ?pre = "prompt_preamble @ ''1'' @ prompt_available @ ''1'' @ prompt_detail @
     [CHR 0x0A, CHR 0xF0, CHR 0x9F, CHR 0x93, CHR 0x8D]"
  have e1: "scenario_prompt = (?pre @ '' 1. '') @ ''ECHAGUE, PEDRO'' @
      ('' 1301-1400 (derecho)'' @ [CHR 0x0A] @
       ''- Tipo: PERMITIDO ESTACIONAR'' @ [CHR 0x0A] @ ''- Horario: 24 HORAS'' @ [CHR 0x0A] @
       ''- Distancia: 4.85 metros'' @ [CHR 0x0A] @ prompt_format)"
    by (simp add: scenario_prompt_def scenario_block_def)
  have 1: "sublist ''ECHAGUE, PEDRO'' scenario_prompt"
    by (subst e1) (rule sublist_appendI)
  have e2: "scenario_prompt = (?pre @ '' 1. ECHAGUE, PEDRO '') @ ''1301-1400'' @
      ('' (derecho)'' @ [CHR 0x0A] @
       ''- Tipo: PERMITIDO ESTACIONAR'' @ [CHR 0x0A] @ ''- Horario: 24 HORAS'' @ [CHR 0x0A] @
       ''- Distancia: 4.85 metros'' @ [CHR 0x0A] @ prompt_format)"
    by (simp add: scenario_prompt_def scenario_block_def)
  have 2: "sublist ''1301-1400'' scenario_prompt"
    by (subst e2) (rule sublist_appendI)
  have e3: "scenario_prompt = (?pre @ '' 1. ECHAGUE, PEDRO 1301-1400 ('') @ ''derecho'' @
      ('')'' @ [CHR 0x0A] @
       ''- Tipo: PERMITIDO ESTACIONAR'' @ [CHR 0x0A] @ ''- Horario: 24 HORAS'' @ [CHR 0x0A] @
       ''- Distancia: 4.85 metros'' @ [CHR 0x0A] @ prompt_format)"
    by (simp add: scenario_prompt_def scenario_block_def)
  have 3: "sublist ''derecho'' scenario_prompt"
    by (subst e3) (rule sublist_appendI)
  have e4: "scenario_prompt =
      (?pre @ '' 1. ECHAGUE, PEDRO 1301-1400 (derecho)'' @ [CHR 0x0A] @ ''- Tipo: '') @
      ''PERMITIDO ESTACIONAR'' @
      ([CHR 0x0A] @ ''- Horario: 24 HORAS'' @ [CHR 0x0A] @
       ''- Distancia: 4.85 metros'' @ [CHR 0x0A] @ prompt_format)"
    by (simp add: scenario_prompt_def scenario_block_def)
  have 4: "sublist ''PERMITIDO ESTACIONAR'' scenario_prompt"
    by (subst e4) (rule sublist_appendI)
  have e5: "scenario_prompt =
      (?pre @ '' 1. ECHAGUE, PEDRO 1301-1400 (derecho)'' @ [CHR 0x0A] @
       ''- Tipo: PERMITIDO ESTACIONAR'' @ [CHR 0x0A] @ ''- Horario: '') @
      ''24 HORAS'' @
      ([CHR 0x0A] @ ''- Distancia: 4.85 metros'' @ [CHR 0x0A] @ prompt_format)"
    by (simp add: scenario_prompt_def scenario_block_def)
  have 5: "sublist ''24 HORAS'' scenario_prompt"
    by (subst e5) (rule sublist_appendI)
  have e6: "scenario_prompt =
      (?pre @ '' 1. ECHAGUE, PEDRO 1301-1400 (derecho)'' @ [CHR 0x0A] @
       ''- Tipo: PERMITIDO ESTACIONAR'' @ [CHR 0x0A] @ ''- Horario: 24 HORAS'' @ [CHR 0x0A] @
       ''- Distancia: '') @
      ''4.85'' @ ('' metros'' @ [CHR 0x0A] @ prompt_format)"
    by (simp add: scenario_prompt_def scenario_block_def)
  have 6: "sublist ''4.85'' scenario_prompt"
    by (subst e6) (rule sublist_appendI)
  show ?thesis
    using 1 2 3 4 5 6 by (simp add: scenario_handler)
qed

theorem scenario_prompt_contains_values_witness:
  "handler service_down (Obj [(''data'', scenario_data)]) =
     (Inr (error_result (Error ''APIConnectionError'' ''Connection error.'')),
      [Completion_requested (chat_request_of system_instruction scenario_prompt)])
   \<and> sublist ''ECHAGUE, PEDRO'' scenario_prompt
   \<and> sublist ''1301-1400'' scenario_prompt
   \<and> sublist ''PERMITIDO ESTACIONAR'' scenario_prompt
   \<and> sublist ''24 HORAS'' scenario_prompt
   \<and> sublist ''derecho'' scenario_prompt
   \<and> sublist ''4.85'' scenario_prompt"
  using scenario_prompt_contains_values [of service_down]
  by (simp add: scenario_handler service_down_def)

section \<open>Failure of the completion service\<close>

lemma flat_rendered: "render_block_part000 0 flat_instance = Inr flat_block"
  by (simp add: render_block_part000_def field_or_def or_else_def flat_instance_def
      flat_block_def string_of_nat.simps)

lemma flat_build_prompt: "build_prompt_part000 flat_data (Arr [flat_instance]) = Inr flat_prompt"
  by (simp add: build_prompt_part000_def array_map_def flat_rendered flat_data_def
      flat_prompt_def string_of_nat.simps)

lemma flat_handler:
  "handler_part000 create (Obj [(''data'', flat_data)]) =
     (Inr (case and_then (create (chat_request_of system_instruction_part000 flat_prompt))
                  analysis_result_part000 of
             Inr result \<Rightarrow> result
           | Inl error \<Rightarrow> error_result_part000 error),
      [Completion_requested (chat_request_of system_instruction_part000 flat_prompt)])"
proof -
  have "get_prop flat_data ''instancias'' = Inr (Arr [flat_instance])"
    by (simp add: flat_data_def)
  then show ?thesis
    by (simp add: handler_part000_def destructure_parameter_def destructure_def
        flat_build_prompt)
qed

lemma handler_failure:
  "snd (handler create input) = [Completion_requested request] \<Longrightarrow>
   create request = Inl err \<Longrightarrow>
   handler create input = (Inr (error_result err), [Completion_requested request])"
  by (auto simp: handler_def split: sum.splits if_splits prod.splits)

lemma handler_part000_failure:
  "snd (handler_part000 create input) = [Completion_requested request] \<Longrightarrow>
   create request = Inl err \<Longrightarrow>
   handler_part000 create input = (Inr (error_result_part000 err), [Completion_requested request])"
  by (auto simp: handler_part000_def split: sum.splits if_splits prod.splits)

lemma success_error_result:
  "success (error_result err) =
     [(''success'', Bool True),
      (''content'', Arr [text_block (Str (error_prefix @ message err))]),
      (''error'', Bool True)]"
  by (simp add: success_def error_result_def)

text \<open>
  Claim C3, as amended. When a request with a valid payload reaches the completion
  service and the call fails with an error, the handler catches it: the route
  answers with status 200 and a single text block that embeds the message of the
  error. In \<^verbatim>\<open>src/mcp-server.js\<close> the body carries \<^verbatim>\<open>success: true\<close> and
  \<^verbatim>\<open>error: true\<close>; in \<^verbatim>\<open>part_000\<close> it carries the text block alone.
\<close>

theorem completion_failure_is_reported:
  assumes "get_prop req_body ''input'' = Inr input" and "truthy input"
    and "get_prop input ''data'' = Inr data" and "truthy data"
    and "create request = Inl err"
  shows "(snd (handler create input) = [Completion_requested request] \<longrightarrow>
            post_mcp_tool node_env tools create ''analizar-estacionamiento'' req_body =
              (Inr \<lparr>status = 200,
                    body = [(''success'', Bool True),
                            (''content'', Arr [text_block (Str (error_prefix @ message err))]),
                            (''error'', Bool True)]\<rparr>,
               [Handler_called ''analizar-estacionamiento'' input,
                Completion_requested request]))
       \<and> (snd (handler_part000 create input) = [Completion_requested request] \<longrightarrow>
            post_mcp_tool_part000 tools_part000 create ''analizar-estacionamiento'' req_body =
              (Inr \<lparr>status = 200,
                    body = [(''content'',
                             Arr [text_block (Str (error_prefix_part000 @ message err))])]\<rparr>,
               [Handler_called ''analizar-estacionamiento'' input,
                Completion_requested request]))"
proof (intro conjI impI)
  assume "snd (handler create input) = [Completion_requested request]"
  then have "handler create input = (Inr (error_result err), [Completion_requested request])"
    using assms(5) by (rule handler_failure)
  then show "post_mcp_tool node_env tools create ''analizar-estacionamiento'' req_body =
              (Inr \<lparr>status = 200,
                    body = [(''success'', Bool True),
                            (''content'', Arr [text_block (Str (error_prefix @ message err))]),
                            (''error'', Bool True)]\<rparr>,
               [Handler_called ''analizar-estacionamiento'' input,
                Completion_requested request])"
    using assms(1-4)
    by (simp add: post_mcp_tool_def tools_def destructure_get_prop success_error_result)
next
  assume "snd (handler_part000 create input) = [Completion_requested request]"
  then have "handler_part000 create input =
      (Inr (error_result_part000 err), [Completion_requested request])"
    using assms(5) by (rule handler_part000_failure)
  then show "post_mcp_tool_part000 tools_part000 create ''analizar-estacionamiento'' req_body =
              (Inr \<lparr>status = 200,
                    body = [(''content'',
                             Arr [text_block (Str (error_prefix_part000 @ message err))])]\<rparr>,
               [Handler_called ''analizar-estacionamiento'' input,
                Completion_requested request])"
    using assms(1-4)
    by (simp add: post_mcp_tool_part000_def tools_part000_def destructure_get_prop
        error_result_part000_def)
qed

theorem completion_failure_is_reported_witness:
  "service_down (chat_request_of system_instruction scenario_prompt) =
     Inl (Error ''APIConnectionError'' ''Connection error.'')
   \<and> snd (handler service_down (Obj [(''data'', scenario_data)])) =
       [Completion_requested (chat_request_of system_instruction scenario_prompt)]
   \<and> post_mcp_tool Undefined tools service_down ''analizar-estacionamiento''
         (request_body scenario_data) =
       (Inr \<lparr>status = 200,
             body = [(''success'', Bool True),
                     (''content'', Arr [text_block (Str (error_prefix @ ''Connection error.''))]),
                     (''error'', Bool True)]\<rparr>,
        [Handler_called ''analizar-estacionamiento'' (Obj [(''data'', scenario_data)]),
         Completion_requested (chat_request_of system_instruction scenario_prompt)])
   \<and> snd (handler_part000 service_down (Obj [(''data'', flat_data)])) =
       [Completion_requested (chat_request_of system_instruction_part000 flat_prompt)]
   \<and> post_mcp_tool_part000 tools_part000 service_down ''analizar-estacionamiento''
         (request_body flat_data) =
       (Inr \<lparr>status = 200,
             body = [(''content'',
                      Arr [text_block (Str (error_prefix_part000 @ ''Connection error.''))])]\<rparr>,
        [Handler_called ''analizar-estacionamiento'' (Obj [(''data'', flat_data)]),
         Completion_requested (chat_request_of system_instruction_part000 flat_prompt)])"
proof -
  have t: "truthy scenario_data" "truthy flat_data"
    by (simp_all add: scenario_data_def flat_data_def)
  show ?thesis
    using t
      completion_failure_is_reported [of "request_body scenario_data"
        "Obj [(''data'', scenario_data)]" scenario_data service_down
        "chat_request_of system_instruction scenario_prompt"
        "Error ''APIConnectionError'' ''Connection error.''" Undefined]
      completion_failure_is_reported [of "request_body flat_data"
        "Obj [(''data'', flat_data)]" flat_data service_down
        "chat_request_of system_instruction_part000 flat_prompt"
        "Error ''APIConnectionError'' ''Connection error.''" Undefined]
    by (simp add: request_body_def scenario_handler flat_handler service_down_def)
qed

text \<open>
  The claim as stated fails in \<^verbatim>\<open>part_000\<close>: the object its \<^verbatim>\<open>catch\<close> block returns
  has no property \<^verbatim>\<open>error\<close>.
\<close>

theorem part000_failure_has_no_error_flag:
  "handler_part000 service_down (Obj [(''data'', flat_data)]) =
     (Inr [(''content'',
            Arr [text_block (Str (error_prefix_part000 @ ''Connection error.''))])],
      [Completion_requested (chat_request_of system_instruction_part000 flat_prompt)])
   \<and> map_of [(''content'',
            Arr [text_block (Str (error_prefix_part000 @ ''Connection error.''))])] ''error'' = None"
  by (simp add: flat_handler service_down_def error_result_part000_def)

section \<open>The guards of the route\<close>

text \<open>
  Claim C5. When the request body has no truthy \<^verbatim>\<open>input\<close>, or \<^verbatim>\<open>input\<close> has no
  truthy \<^verbatim>\<open>data\<close> (absent in particular), the route answers with status 400 in
  both server files, whatever the tool name and the registry, and the run has no
  event: no handler is called.
\<close>

theorem missing_data_is_rejected:
  assumes "get_prop req_body ''input'' = Inr input"
    and "\<not> truthy input \<or> get_prop input ''data'' = Inr d \<and> \<not> truthy d"
  shows "post_mcp_tool node_env registry create toolName req_body =
           (Inr \<lparr>status = 400, body = bad_request\<rparr>, [])
       \<and> post_mcp_tool_part000 registry create toolName req_body =
           (Inr \<lparr>status = 400, body = bad_request_part000\<rparr>, [])"
  using assms
  by (auto simp: post_mcp_tool_def post_mcp_tool_part000_def destructure_get_prop)

theorem missing_data_is_rejected_witness:
  "get_prop (Obj [(''input'', Obj [])]) ''input'' = Inr (Obj [])
   \<and> get_prop (Obj []) ''data'' = Inr Undefined
   \<and> post_mcp_tool Undefined tools service_down ''analizar-estacionamiento''
        (Obj [(''input'', Obj [])]) =
       (Inr \<lparr>status = 400, body = bad_request\<rparr>, [])
   \<and> post_mcp_tool_part000 tools service_down ''analizar-estacionamiento''
        (Obj [(''input'', Obj [])]) =
       (Inr \<lparr>status = 400, body = bad_request_part000\<rparr>, [])
   \<and> get_prop (Obj []) ''input'' = Inr Undefined
   \<and> post_mcp_tool Undefined tools service_down ''analizar-estacionamiento'' (Obj []) =
       (Inr \<lparr>status = 400, body = bad_request\<rparr>, [])"
  using missing_data_is_rejected [of "Obj [(''input'', Obj [])]" "Obj []" Undefined
      Undefined tools service_down "''analizar-estacionamiento''"]
    missing_data_is_rejected [of "Obj []" Undefined Undefined
      Undefined tools service_down "''analizar-estacionamiento''"]
  by simp

text \<open>
  Claim C4, as amended. When the payload passes the guard (\<^verbatim>\<open>input\<close> and
  \<^verbatim>\<open>input.data\<close> are truthy) and the tool name is not in the registry, the route
  answers with status 404 and the names of all registered tools, in insertion
  order, and no handler is called.
\<close>

theorem unknown_tool_is_not_found:
  assumes "get_prop req_body ''input'' = Inr input" and "truthy input"
    and "get_prop input ''data'' = Inr data" and "truthy data"
    and "map_of registry toolName = None"
  shows "post_mcp_tool node_env registry create toolName req_body =
           (Inr \<lparr>status = 404,
                 body = [(''error'', Str ''Herramienta no encontrada''),
                         (''herramientasDisponibles'', Arr (map (Str \<circ> fst) registry))]\<rparr>,
            [])
       \<and> post_mcp_tool_part000 registry create toolName req_body =
           (Inr \<lparr>status = 404,
                 body = [(''error'', Str ''Herramienta no encontrada''),
                         (''herramientasDisponibles'', Arr (map (Str \<circ> fst) registry))]\<rparr>,
            [])"
proof -
  have "map (\<lambda>(toolName, t). Str toolName) registry = map (Str \<circ> fst) registry"
    by (induction registry) auto
  then show ?thesis
    using assms
    by (simp add: post_mcp_tool_def post_mcp_tool_part000_def destructure_get_prop
        not_found_def)
qed

theorem unknown_tool_is_not_found_witness:
  "get_prop (request_body empty_data) ''input'' = Inr (Obj [(''data'', empty_data)])
   \<and> truthy empty_data
   \<and> map_of tools ''unknown-tool'' = None
   \<and> post_mcp_tool Undefined tools service_down ''unknown-tool'' (request_body empty_data) =
       (Inr \<lparr>status = 404,
             body = [(''error'', Str ''Herramienta no encontrada''),
                     (''herramientasDisponibles'', Arr [Str ''analizar-estacionamiento''])]\<rparr>,
        [])
   \<and> post_mcp_tool_part000 tools_part000 service_down ''unknown-tool''
        (request_body empty_data) =
       (Inr \<lparr>status = 404,
             body = [(''error'', Str ''Herramienta no encontrada''),
                     (''herramientasDisponibles'', Arr [Str ''analizar-estacionamiento''])]\<rparr>,
        [])"
proof -
  have t: "truthy empty_data"
    by (simp add: empty_data_def)
  show ?thesis
    using t
      unknown_tool_is_not_found [of "request_body empty_data" "Obj [(''data'', empty_data)]"
        empty_data tools "''unknown-tool''" Undefined service_down]
      unknown_tool_is_not_found [of "request_body empty_data" "Obj [(''data'', empty_data)]"
        empty_data tools_part000 "''unknown-tool''" Undefined service_down]
    by (simp add: request_body_def tools_def tools_part000_def)
qed

text \<open>
  The claim as stated fails when the payload is invalid as well: the payload guard
  comes first, and an unknown tool name with the body \<^verbatim>\<open>{}\<close> is answered with
  status 400.
\<close>

theorem unknown_tool_with_bad_payload:
  "map_of tools ''unknown-tool'' = None
   \<and> post_mcp_tool Undefined tools service_down ''unknown-tool'' (Obj []) =
       (Inr \<lparr>status = 400, body = bad_request\<rparr>, [])
   \<and> map_of tools_part000 ''unknown-tool'' = None
   \<and> post_mcp_tool_part000 tools_part000 service_down ''unknown-tool'' (Obj []) =
       (Inr \<lparr>status = 400, body = bad_request_part000\<rparr>, [])"
  by (simp add: tools_def tools_part000_def post_mcp_tool_def post_mcp_tool_part000_def
      destructure_def)

section \<open>Instances without an attribute list\<close>

lemma to_string_error:
  "to_string v = Inl e \<Longrightarrow> name e = ''TypeError''"
  "join_elements vs = Inl e \<Longrightarrow> name e = ''TypeError''"
  by (induction v and vs rule: to_string_join_elements.induct)
    (auto simp: and_then_def split: if_splits sum.splits)

lemma get_prop_error: "get_prop v k = Inl e \<Longrightarrow> name e = ''TypeError''"
  by (cases v) (auto simp: cannot_read_def)

lemma not_callable_error: "name (not_callable src m v) = ''TypeError''"
  by (auto simp: not_callable_def get_prop_error split: sum.splits)

lemma attribute_step_error: "attribute_step acc item = Inl e \<Longrightarrow> name e = ''TypeError''"
  by (auto simp: attribute_step_def and_then_def get_prop_error to_string_error
      split: sum.splits)

lemma reduce_attributes_error:
  "reduce_from attribute_step acc items = Inl e \<Longrightarrow> name e = ''TypeError''"
  by (induction items arbitrary: acc)
    (auto simp: and_then_def attribute_step_error split: sum.splits)

lemma normalize_error: "normalize_instance est = Inl e \<Longrightarrow> name e = ''TypeError''"
  by (auto simp: normalize_instance_def array_reduce_def and_then_def get_prop_error
      not_callable_error reduce_attributes_error split: sum.splits jsval.splits)

lemma normalize_without_attribute_list:
  "attribute_list est = None \<Longrightarrow> \<exists>e. normalize_instance est = Inl e"
  by (auto simp: attribute_list_def normalize_instance_def array_reduce_def and_then_def
      split: sum.splits jsval.splits)

lemma map_indexed_error:
  "map_indexed f i xs = Inl e \<Longrightarrow> \<exists>j x. x \<in> set xs \<and> f j x = Inl e"
proof (induction xs arbitrary: i)
  case Nil
  then show ?case by simp
next
  case (Cons x xs)
  then show ?case
    by (cases "f i x"; cases "map_indexed f (Suc i) xs") fastforce+
qed

lemma map_indexed_fails:
  "x \<in> set xs \<Longrightarrow> \<forall>j. \<exists>e. f j x = Inl e \<Longrightarrow> \<exists>e. map_indexed f i xs = Inl e"
proof (induction xs arbitrary: i)
  case Nil
  then show ?case by simp
next
  case (Cons y ys)
  show ?case
  proof (cases "f i y")
    case (Inl e)
    then show ?thesis by simp
  next
    case (Inr b)
    from Cons.prems(2) obtain e' where "f i x = Inl e'" by blast
    with Inr have "x \<noteq> y" by auto
    with Cons.prems(1) have "x \<in> set ys" by simp
    then obtain e where "map_indexed f (Suc i) ys = Inl e"
      using Cons.IH Cons.prems(2) by blast
    with Inr show ?thesis by simp
  qed
qed

text \<open>
  Claim C9. When the payload passes the guard, \<^verbatim>\<open>instancias\<close> is an array and
  one of its elements has no array under \<^verbatim>\<open>contenido.contenido\<close>, the handler of
  \<^verbatim>\<open>src/mcp-server.js\<close> rejects with a \<^verbatim>\<open>TypeError\<close> before any request to the
  completion service, and the route answers with status 500 and that error's
  message.
\<close>

theorem missing_attribute_list_is_internal_fault:
  assumes "get_prop req_body ''input'' = Inr input" and "truthy input"
    and "get_prop input ''data'' = Inr data" and "truthy data"
    and "get_prop data ''instancias'' = Inr (Arr instancias)"
    and "est \<in> set instancias"
    and "attribute_list est = None"
  shows "\<exists>msg. handler create input = (Inl (TypeError msg), [])
           \<and> post_mcp_tool node_env tools create ''analizar-estacionamiento'' req_body =
               (Inr \<lparr>status = 500, body = internal_error node_env (TypeError msg)\<rparr>,
                [Handler_called ''analizar-estacionamiento'' input])"
proof -
  have "\<forall>j. \<exists>e. normalize_instance est = Inl e"
    using normalize_without_attribute_list [OF assms(7)] by simp
  then obtain e where e: "map_indexed (\<lambda>i. normalize_instance) 0 instancias = Inl e"
    using map_indexed_fails [OF assms(6), of "\<lambda>i. normalize_instance" 0] by blast
  then obtain x where "normalize_instance x = Inl e"
    using map_indexed_error [OF e] by blast
  then have "name e = ''TypeError''"
    by (rule normalize_error)
  then have type: "e = TypeError (message e)"
    by (cases e) simp
  have "instancias \<noteq> []"
    using assms(6) by auto
  then have h: "handler create input = (Inl e, [])"
    using assms(3,5) e
    by (simp add: handler_def destructure_parameter_get_prop array_map_def)
  then have "post_mcp_tool node_env tools create ''analizar-estacionamiento'' req_body =
      (Inr \<lparr>status = 500, body = internal_error node_env e\<rparr>,
       [Handler_called ''analizar-estacionamiento'' input])"
    using assms(1-4) by (simp add: post_mcp_tool_def tools_def destructure_get_prop)
  with h type show ?thesis by metis
qed

theorem missing_attribute_list_is_internal_fault_witness:
  "get_prop flat_data ''instancias'' = Inr (Arr [flat_instance])
   \<and> attribute_list flat_instance = None
   \<and> handler service_down (Obj [(''data'', flat_data)]) =
       (Inl (cannot_read ''undefined'' ''contenido''), [])
   \<and> post_mcp_tool Undefined tools service_down ''analizar-estacionamiento''
        (request_body flat_data) =
       (Inr \<lparr>status = 500,
             body = [(''error'', Str ''Error interno al procesar la solicitud''),
                     (''detalle'', Str (message (cannot_read ''undefined'' ''contenido''))),
                     (''stack'', Undefined)]\<rparr>,
        [Handler_called ''analizar-estacionamiento'' (Obj [(''data'', flat_data)])])"
proof -
  have a: "get_prop flat_data ''instancias'' = Inr (Arr [flat_instance])" "truthy flat_data"
    by (simp_all add: flat_data_def)
  have b: "attribute_list flat_instance = None"
    by (simp add: attribute_list_def flat_instance_def)
  have n: "normalize_instance flat_instance = Inl (cannot_read ''undefined'' ''contenido'')"
    by (simp add: normalize_instance_def flat_instance_def)
  have h: "handler service_down (Obj [(''data'', flat_data)]) =
       (Inl (cannot_read ''undefined'' ''contenido''), [])"
    using a
    by (simp add: handler_def destructure_parameter_def destructure_def array_map_def n)
  show ?thesis
    using a b h
      missing_attribute_list_is_internal_fault [of "request_body flat_data"
        "Obj [(''data'', flat_data)]" flat_data "[flat_instance]" flat_instance
        service_down Undefined]
    by (auto simp: request_body_def internal_error_def cannot_read_def)
qed

section \<open>Defaults of the fields\<close>

lemma reduce_attributes_proto:
  "reduce_from attribute_step acc items = Inr d \<Longrightarrow>
   \<forall>item\<in>set items. attribute_key item \<noteq> Some ''__proto__'' \<Longrightarrow>
   proto d = proto acc"
proof (induction items arbitrary: acc)
  case Nil
  then show ?case by simp
next
  case (Cons item items)
  from Cons.prems(1) obtain acc' where step: "attribute_step acc item = Inr acc'"
    and rest: "reduce_from attribute_step acc' items = Inr d"
    by (auto simp: and_then_eq_Inr)
  from step obtain k' where k': "attribute_key item = Some k'"
    and acc': "acc' = assign acc k' (attribute_valor item)"
    by (auto simp: attribute_step_Inr)
  have "k' \<noteq> ''__proto__''"
    using Cons.prems(2) k' by auto
  then have "proto acc' = proto acc"
    by (simp add: acc' assign_def)
  then show ?case
    using Cons.IH [OF rest] Cons.prems(2) by simp
qed

lemma absent_key_reads_undefined:
  assumes "reduce_from attribute_step empty_object items = Inr d"
    and "\<forall>item\<in>set items. attribute_key item \<noteq> Some ''__proto__''"
    and "\<forall>item\<in>set items. attribute_key item \<noteq> Some k"
  shows "get_detalle d k = Undefined"
proof -
  have "map_of (own_props d) k = None"
    using reduce_attributes_keeps [OF assms(1,3)] by (simp add: empty_object_def)
  moreover have "proto d = Object_prototype"
    using reduce_attributes_proto [OF assms(1,2)] by (simp add: empty_object_def)
  ultimately show ?thesis
    by (simp add: get_detalle_def)
qed

lemma map_of_zip_map:
  "map_of (zip ks (map f vs)) k = map_option f (map_of (zip ks vs) k)"
proof (induction ks arbitrary: vs)
  case Nil
  then show ?case by simp
next
  case (Cons a ks)
  then show ?case by (cases vs) auto
qed

lemma lookup_map_option:
  "(case map_option f m of Some w \<Rightarrow> w | None \<Rightarrow> Undefined) =
     (case m of Some c \<Rightarrow> f c | None \<Rightarrow> Undefined)"
  by (cases m) simp_all

lemma spread_lookup:
  assumes "get_prop est k = Inr v" and "k \<noteq> ''length''"
  shows "(case map_of (spread est) k of Some w \<Rightarrow> w | None \<Rightarrow> Undefined) = v"
proof (cases est)
  case (Str s)
  let ?m = "map_of (zip (map string_of_nat [0..<length s]) s) k"
  have "(case map_of (spread est) k of Some w \<Rightarrow> w | None \<Rightarrow> Undefined) =
      (case ?m of Some c \<Rightarrow> Str [c] | None \<Rightarrow> Undefined)"
    unfolding Str spread.simps map_of_zip_map by (rule lookup_map_option)
  moreover have "get_prop est k = Inr (case ?m of Some c \<Rightarrow> Str [c] | None \<Rightarrow> Undefined)"
    using assms(2) by (simp only: Str get_prop.simps if_False)
  ultimately show ?thesis
    using assms(1) by (simp only: sum.inject)
qed (use assms in auto)

lemma nat_int_Suc: "nat (int i + 1) = Suc i"
  by simp

lemma render_defaults:
  assumes "calle (campos_of e) = Str ''Calle no especificada''"
    and "altura (campos_of e) = Str ''S/N''"
    and "permiso (campos_of e) = Str ''Sin datos''"
    and "horario (campos_of e) = Str ''Sin horario''"
    and "lado (campos_of e) = Str []"
    and "distancia (campos_of e) = Str ''N/D''"
  shows "render_block i e =
     Inr ([CHR 0x0A, CHR 0xF0, CHR 0x9F, CHR 0x93, CHR 0x8D] @ '' '' @ string_of_nat (Suc i) @
          ''. Calle no especificada S/N ()'' @ [CHR 0x0A] @ ''- Tipo: Sin datos'' @
          [CHR 0x0A] @ ''- Horario: Sin horario'' @ [CHR 0x0A] @
          ''- Distancia: N/D metros'' @ [CHR 0x0A])"
  unfolding render_block_def Let_def assms
  by (simp add: nat_int_Suc)

text \<open>
  Claim C6, as amended. An instance whose attribute list can be folded and has no
  item with the id \<^verbatim>\<open>__proto__\<close> is normalized without failure, whichever attributes
  are missing, and each field whose id no item of the list carries has its
  default in the record: \<^verbatim>\<open>Calle no especificada\<close>, \<^verbatim>\<open>S/N\<close>, \<^verbatim>\<open>Sin datos\<close>,
  \<^verbatim>\<open>Sin horario\<close>, the empty string, and \<^verbatim>\<open>N/D\<close> when the instance has no
  \<^verbatim>\<open>distancia\<close>. When all six are missing, the block of the prompt for the record
  at index \<open>i\<close> is the number \<open>i + 1\<close> and the defaults.
\<close>

theorem defaults_for_absent_fields:
  assumes "attribute_list est = Some items"
    and "\<forall>item\<in>set items. attribute_key item \<noteq> None"
    and "\<forall>item\<in>set items. attribute_key item \<noteq> Some ''__proto__''"
  shows "\<exists>e. normalize_instance est = Inr e
     \<and> ((\<forall>item\<in>set items. attribute_key item \<noteq> Some ''calle'') \<longrightarrow>
          calle (campos_of e) = Str ''Calle no especificada'')
     \<and> ((\<forall>item\<in>set items. attribute_key item \<noteq> Some ''altura'') \<longrightarrow>
          altura (campos_of e) = Str ''S/N'')
     \<and> ((\<forall>item\<in>set items. attribute_key item \<noteq> Some ''permiso'') \<longrightarrow>
          permiso (campos_of e) = Str ''Sin datos'')
     \<and> ((\<forall>item\<in>set items. attribute_key item \<noteq> Some ''horario'') \<longrightarrow>
          horario (campos_of e) = Str ''Sin horario'')
     \<and> ((\<forall>item\<in>set items. attribute_key item \<noteq> Some ''lado'') \<longrightarrow>
          lado (campos_of e) = Str [])
     \<and> (get_prop est ''distancia'' = Inr Undefined \<longrightarrow>
          distancia (campos_of e) = Str ''N/D'')
     \<and> ((\<forall>item\<in>set items.
           attribute_key item \<noteq> Some ''calle'' \<and> attribute_key item \<noteq> Some ''altura'' \<and>
           attribute_key item \<noteq> Some ''permiso'' \<and> attribute_key item \<noteq> Some ''horario'' \<and>
           attribute_key item \<noteq> Some ''lado'') \<and>
         get_prop est ''distancia'' = Inr Undefined \<longrightarrow>
          render_block i e =
            Inr ([CHR 0x0A, CHR 0xF0, CHR 0x9F, CHR 0x93, CHR 0x8D] @ '' '' @
                 string_of_nat (Suc i) @
                 ''. Calle no especificada S/N ()'' @ [CHR 0x0A] @ ''- Tipo: Sin datos'' @
                 [CHR 0x0A] @ ''- Horario: Sin horario'' @ [CHR 0x0A] @
                 ''- Distancia: N/D metros'' @ [CHR 0x0A]))"
proof -
  obtain d where d: "reduce_from attribute_step empty_object items = Inr d"
    using reduce_attributes_total [OF assms(2)] by blast
  define e where "e = \<lparr>est_props = spread est, detalles = d\<rparr>"
  have n: "normalize_instance est = Inr e"
    using normalize_nested [OF assms(1)] d by (simp add: e_def)
  have absent: "get_detalle (detalles e) k = Undefined"
    if "\<forall>item\<in>set items. attribute_key item \<noteq> Some k" for k
    using absent_key_reads_undefined [OF d assms(3) that] by (simp add: e_def)
  have 1: "(\<forall>item\<in>set items. attribute_key item \<noteq> Some ''calle'') \<longrightarrow>
       calle (campos_of e) = Str ''Calle no especificada''"
    using absent [of "''calle''"] by (simp add: campos_of_def or_else_def)
  have 2: "(\<forall>item\<in>set items. attribute_key item \<noteq> Some ''altura'') \<longrightarrow>
       altura (campos_of e) = Str ''S/N''"
    using absent [of "''altura''"] by (simp add: campos_of_def or_else_def)
  have 3: "(\<forall>item\<in>set items. attribute_key item \<noteq> Some ''permiso'') \<longrightarrow>
       permiso (campos_of e) = Str ''Sin datos''"
    using absent [of "''permiso''"] by (simp add: campos_of_def or_else_def)
  have 4: "(\<forall>item\<in>set items. attribute_key item \<noteq> Some ''horario'') \<longrightarrow>
       horario (campos_of e) = Str ''Sin horario''"
    using absent [of "''horario''"] by (simp add: campos_of_def or_else_def)
  have 5: "(\<forall>item\<in>set items. attribute_key item \<noteq> Some ''lado'') \<longrightarrow>
       lado (campos_of e) = Str []"
    using absent [of "''lado''"] by (simp add: campos_of_def or_else_def)
  have 6: "get_prop est ''distancia'' = Inr Undefined \<longrightarrow>
       distancia (campos_of e) = Str ''N/D''"
  proof
    assume "get_prop est ''distancia'' = Inr Undefined"
    then have "(case map_of (spread est) ''distancia'' of Some w \<Rightarrow> w | None \<Rightarrow> Undefined) =
        Undefined"
      by (rule spread_lookup) simp
    then show "distancia (campos_of e) = Str ''N/D''"
      by (simp add: campos_of_def or_else_def e_def)
  qed
  have 7: "(\<forall>item\<in>set items.
           attribute_key item \<noteq> Some ''calle'' \<and> attribute_key item \<noteq> Some ''altura'' \<and>
           attribute_key item \<noteq> Some ''permiso'' \<and> attribute_key item \<noteq> Some ''horario'' \<and>
           attribute_key item \<noteq> Some ''lado'') \<and>
         get_prop est ''distancia'' = Inr Undefined \<longrightarrow>
          render_block i e =
            Inr ([CHR 0x0A, CHR 0xF0, CHR 0x9F, CHR 0x93, CHR 0x8D] @ '' '' @
                 string_of_nat (Suc i) @
                 ''. Calle no especificada S/N ()'' @ [CHR 0x0A] @ ''- Tipo: Sin datos'' @
                 [CHR 0x0A] @ ''- Horario: Sin horario'' @ [CHR 0x0A] @
                 ''- Distancia: N/D metros'' @ [CHR 0x0A])"
  proof
    assume a: "(\<forall>item\<in>set items.
           attribute_key item \<noteq> Some ''calle'' \<and> attribute_key item \<noteq> Some ''altura'' \<and>
           attribute_key item \<noteq> Some ''permiso'' \<and> attribute_key item \<noteq> Some ''horario'' \<and>
           attribute_key item \<noteq> Some ''lado'') \<and>
         get_prop est ''distancia'' = Inr Undefined"
    have "calle (campos_of e) = Str ''Calle no especificada''" using a 1 by blast
    moreover have "altura (campos_of e) = Str ''S/N''" using a 2 by blast
    moreover have "permiso (campos_of e) = Str ''Sin datos''" using a 3 by blast
    moreover have "horario (campos_of e) = Str ''Sin horario''" using a 4 by blast
    moreover have "lado (campos_of e) = Str []" using a 5 by blast
    moreover have "distancia (campos_of e) = Str ''N/D''" using a 6 by blast
    ultimately show "render_block i e =
            Inr ([CHR 0x0A, CHR 0xF0, CHR 0x9F, CHR 0x93, CHR 0x8D] @ '' '' @
                 string_of_nat (Suc i) @
                 ''. Calle no especificada S/N ()'' @ [CHR 0x0A] @ ''- Tipo: Sin datos'' @
                 [CHR 0x0A] @ ''- Horario: Sin horario'' @ [CHR 0x0A] @
                 ''- Distancia: N/D metros'' @ [CHR 0x0A])"
      by (rule render_defaults)
  qed
  show ?thesis
    using n 1 2 3 4 5 6 7 by (intro exI [of _ e] conjI)
qed

theorem defaults_for_absent_fields_witness:
  "attribute_list partial_instance =
     Some [attribute ''calle'' (Str ''ECHAGUE, PEDRO''),
           attribute ''barrio'' (Str ''PARQUE PATRICIOS'')]
   \<and> (\<exists>e. normalize_instance partial_instance = Inr e
        \<and> calle (campos_of e) = Str ''ECHAGUE, PEDRO''
        \<and> altura (campos_of e) = Str ''S/N''
        \<and> permiso (campos_of e) = Str ''Sin datos''
        \<and> horario (campos_of e) = Str ''Sin horario''
        \<and> lado (campos_of e) = Str []
        \<and> distancia (campos_of e) = Str ''4.85'')
   \<and> attribute_list sparse_instance = Some [attribute ''barrio'' (Str ''PARQUE PATRICIOS'')]
   \<and> get_prop sparse_instance ''distancia'' = Inr Undefined
   \<and> (\<exists>e. normalize_instance sparse_instance = Inr e
        \<and> calle (campos_of e) = Str ''Calle no especificada''
        \<and> distancia (campos_of e) = Str ''N/D''
        \<and> render_block 0 e =
            Inr ([CHR 0x0A, CHR 0xF0, CHR 0x9F, CHR 0x93, CHR 0x8D] @
                 '' 1. Calle no especificada S/N ()'' @ [CHR 0x0A] @ ''- Tipo: Sin datos'' @
                 [CHR 0x0A] @ ''- Horario: Sin horario'' @ [CHR 0x0A] @
                 ''- Distancia: N/D metros'' @ [CHR 0x0A]))"
proof -
  let ?ps = "[attribute ''calle'' (Str ''ECHAGUE, PEDRO''),
              attribute ''barrio'' (Str ''PARQUE PATRICIOS'')]"
  let ?ss = "[attribute ''barrio'' (Str ''PARQUE PATRICIOS'')]"
  have p1: "attribute_list partial_instance = Some ?ps"
    by (simp add: partial_instance_def)
  have p2: "\<forall>item\<in>set ?ps. attribute_key item \<noteq> None"
    and p3: "\<forall>item\<in>set ?ps. attribute_key item \<noteq> Some ''__proto__''"
    by simp_all
  from defaults_for_absent_fields [OF p1 p2 p3, of 0]
  obtain e where e: "normalize_instance partial_instance = Inr e"
    and e2: "(\<forall>item\<in>set ?ps. attribute_key item \<noteq> Some ''altura'') \<longrightarrow>
          altura (campos_of e) = Str ''S/N''"
    and e3: "(\<forall>item\<in>set ?ps. attribute_key item \<noteq> Some ''permiso'') \<longrightarrow>
          permiso (campos_of e) = Str ''Sin datos''"
    and e4: "(\<forall>item\<in>set ?ps. attribute_key item \<noteq> Some ''horario'') \<longrightarrow>
          horario (campos_of e) = Str ''Sin horario''"
    and e5: "(\<forall>item\<in>set ?ps. attribute_key item \<noteq> Some ''lado'') \<longrightarrow>
          lado (campos_of e) = Str []"
    by (elim exE conjE)
  have "normalize_instance partial_instance =
      Inr \<lparr>est_props = spread partial_instance,
           detalles = \<lparr>own_props = [(''calle'', Str ''ECHAGUE, PEDRO''),
                                    (''barrio'', Str ''PARQUE PATRICIOS'')],
                       proto = Object_prototype\<rparr>\<rparr>"
    by (simp add: partial_instance_def normalize_nested attribute_step_key assign_def
        empty_object_def)
  with e have "calle (campos_of e) = Str ''ECHAGUE, PEDRO''"
    and "distancia (campos_of e) = Str ''4.85''"
    by (auto simp: campos_of_def get_detalle_def or_else_def partial_instance_def
        nested_instance_def)
  moreover have "altura (campos_of e) = Str ''S/N''" using e2 by simp
  moreover have "permiso (campos_of e) = Str ''Sin datos''" using e3 by simp
  moreover have "horario (campos_of e) = Str ''Sin horario''" using e4 by simp
  moreover have "lado (campos_of e) = Str []" using e5 by simp
  ultimately have partial: "\<exists>e. normalize_instance partial_instance = Inr e
        \<and> calle (campos_of e) = Str ''ECHAGUE, PEDRO''
        \<and> altura (campos_of e) = Str ''S/N''
        \<and> permiso (campos_of e) = Str ''Sin datos''
        \<and> horario (campos_of e) = Str ''Sin horario''
        \<and> lado (campos_of e) = Str []
        \<and> distancia (campos_of e) = Str ''4.85''"
    using e by (intro exI [of _ e] conjI)
  have s1: "attribute_list sparse_instance = Some ?ss"
    by (simp add: sparse_instance_def)
  have s2: "\<forall>item\<in>set ?ss. attribute_key item \<noteq> None"
    and s3: "\<forall>item\<in>set ?ss. attribute_key item \<noteq> Some ''__proto__''"
    by simp_all
  have s4: "get_prop sparse_instance ''distancia'' = Inr Undefined"
    by (simp add: sparse_instance_def nested_instance_def)
  have s5: "\<forall>item\<in>set ?ss.
           attribute_key item \<noteq> Some ''calle'' \<and> attribute_key item \<noteq> Some ''altura'' \<and>
           attribute_key item \<noteq> Some ''permiso'' \<and> attribute_key item \<noteq> Some ''horario'' \<and>
           attribute_key item \<noteq> Some ''lado''"
    by simp
  from defaults_for_absent_fields [OF s1 s2 s3, of 0]
  obtain f where f: "normalize_instance sparse_instance = Inr f"
    and f1: "(\<forall>item\<in>set ?ss. attribute_key item \<noteq> Some ''calle'') \<longrightarrow>
          calle (campos_of f) = Str ''Calle no especificada''"
    and f6: "get_prop sparse_instance ''distancia'' = Inr Undefined \<longrightarrow>
          distancia (campos_of f) = Str ''N/D''"
    and f7: "(\<forall>item\<in>set ?ss.
           attribute_key item \<noteq> Some ''calle'' \<and> attribute_key item \<noteq> Some ''altura'' \<and>
           attribute_key item \<noteq> Some ''permiso'' \<and> attribute_key item \<noteq> Some ''horario'' \<and>
           attribute_key item \<noteq> Some ''lado'') \<and>
         get_prop sparse_instance ''distancia'' = Inr Undefined \<longrightarrow>
          render_block 0 f =
            Inr ([CHR 0x0A, CHR 0xF0, CHR 0x9F, CHR 0x93, CHR 0x8D] @ '' '' @
                 string_of_nat (Suc 0) @
                 ''. Calle no especificada S/N ()'' @ [CHR 0x0A] @ ''- Tipo: Sin datos'' @
                 [CHR 0x0A] @ ''- Horario: Sin horario'' @ [CHR 0x0A] @
                 ''- Distancia: N/D metros'' @ [CHR 0x0A])"
    by (elim exE conjE)
  have one: "string_of_nat (Suc 0) = ''1''"
    by (simp add: string_of_nat.simps)
  have "calle (campos_of f) = Str ''Calle no especificada''" using f1 by simp
  moreover have "distancia (campos_of f) = Str ''N/D''" using f6 s4 by simp
  moreover have "render_block 0 f =
            Inr ([CHR 0x0A, CHR 0xF0, CHR 0x9F, CHR 0x93, CHR 0x8D] @
                 '' 1. Calle no especificada S/N ()'' @ [CHR 0x0A] @ ''- Tipo: Sin datos'' @
                 [CHR 0x0A] @ ''- Horario: Sin horario'' @ [CHR 0x0A] @
                 ''- Distancia: N/D metros'' @ [CHR 0x0A])"
    using f7 s4 s5 by (simp add: one)
  ultimately have sparse: "\<exists>e. normalize_instance sparse_instance = Inr e
        \<and> calle (campos_of e) = Str ''Calle no especificada''
        \<and> distancia (campos_of e) = Str ''N/D''
        \<and> render_block 0 e =
            Inr ([CHR 0x0A, CHR 0xF0, CHR 0x9F, CHR 0x93, CHR 0x8D] @
                 '' 1. Calle no especificada S/N ()'' @ [CHR 0x0A] @ ''- Tipo: Sin datos'' @
                 [CHR 0x0A] @ ''- Horario: Sin horario'' @ [CHR 0x0A] @
                 ''- Distancia: N/D metros'' @ [CHR 0x0A])"
    using f by (intro exI [of _ f] conjI)
  show ?thesis
    using p1 partial s1 s4 sparse by (intro conjI)
qed

text \<open>
  The claim as stated fails when an item with the id \<^verbatim>\<open>__proto__\<close> holds an object:
  the assignment installs that object as the prototype of the folded attributes,
  and a key missing from the list is read from it. Here no item has the id
  \<^verbatim>\<open>calle\<close>, and the street of the record is not the default.
\<close>

theorem proto_supplies_calle:
  "attribute_list proto_calle_instance =
     Some [attribute ''__proto__'' (Obj [(''calle'', Str ''DESDE PROTO'')])]
   \<and> attribute_key (attribute ''__proto__'' (Obj [(''calle'', Str ''DESDE PROTO'')])) =
       Some ''__proto__''
   \<and> normalize_instance proto_calle_instance =
       Inr \<lparr>est_props = spread proto_calle_instance,
            detalles = \<lparr>own_props = [],
                        proto = Proto (Obj [(''calle'', Str ''DESDE PROTO'')])\<rparr>\<rparr>
   \<and> calle (campos_of
         \<lparr>est_props = spread proto_calle_instance,
          detalles = \<lparr>own_props = [],
                      proto = Proto (Obj [(''calle'', Str ''DESDE PROTO'')])\<rparr>\<rparr>) =
       Str ''DESDE PROTO''"
  by (simp add: proto_calle_instance_def normalize_nested attribute_step_key assign_def
      reaches_proto_setter_def set_prototype_of_def empty_object_def campos_of_def
      get_detalle_def or_else_def)

section \<open>The two variants\<close>







section \<open>Determinism of the prompt\<close>

text \<open>
  Claim C8. Two runs of a handler on the same input send the same requests, hence
  byte-identical prompts, whatever the completion service answers in either run,
  in both server files; and the prompt of \<^verbatim>\<open>src/mcp-server.js\<close> is a function of the
  normalized records and the two counts alone: query results that agree on
  \<^verbatim>\<open>total\<close> and \<^verbatim>\<open>totalFull\<close> give the same prompt for the same records.
\<close>

theorem prompt_is_deterministic:
  "snd (handler create input) = snd (handler create' input)
   \<and> snd (handler_part000 create input) = snd (handler_part000 create' input)
   \<and> (get_prop data ''total'' = get_prop data' ''total'' \<and>
       get_prop data ''totalFull'' = get_prop data' ''totalFull'' \<longrightarrow>
        build_prompt data estacionamientos = build_prompt data' estacionamientos)"
proof (intro conjI impI)
  show "snd (handler create input) = snd (handler create' input)"
    by (simp add: handler_def split: sum.splits prod.splits)
  show "snd (handler_part000 create input) = snd (handler_part000 create' input)"
    by (simp add: handler_part000_def split: sum.splits prod.splits)
  assume "get_prop data ''total'' = get_prop data' ''total'' \<and>
       get_prop data ''totalFull'' = get_prop data' ''totalFull''"
  then show "build_prompt data estacionamientos = build_prompt data' estacionamientos"
    by (simp add: build_prompt_def)
qed

theorem prompt_is_deterministic_witness:
  "snd (handler service_down (Obj [(''data'', scenario_data)])) =
     [Completion_requested (chat_request_of system_instruction scenario_prompt)]
   \<and> snd (handler service_ok (Obj [(''data'', scenario_data)])) =
     [Completion_requested (chat_request_of system_instruction scenario_prompt)]
   \<and> snd (handler_part000 service_down (Obj [(''data'', flat_data)])) =
     snd (handler_part000 service_ok (Obj [(''data'', flat_data)]))
   \<and> get_prop scenario_data ''total'' = get_prop (Obj [(''total'', Num 1), (''totalFull'', Num 1)]) ''total''
   \<and> get_prop scenario_data ''totalFull'' =
       get_prop (Obj [(''total'', Num 1), (''totalFull'', Num 1)]) ''totalFull''
   \<and> build_prompt (Obj [(''total'', Num 1), (''totalFull'', Num 1)]) [scenario_record] =
       Inr scenario_prompt"
proof -
  have c: "get_prop scenario_data ''total'' =
        get_prop (Obj [(''total'', Num 1), (''totalFull'', Num 1)]) ''total''"
      "get_prop scenario_data ''totalFull'' =
        get_prop (Obj [(''total'', Num 1), (''totalFull'', Num 1)]) ''totalFull''"
    by (simp_all add: scenario_data_def)
  show ?thesis
    using c prompt_is_deterministic [of service_down "Obj [(''data'', scenario_data)]"
        service_ok scenario_data "Obj [(''total'', Num 1), (''totalFull'', Num 1)]"
        "[scenario_record]"]
      prompt_is_deterministic [of service_down "Obj [(''data'', flat_data)]" service_ok]
    by (simp add: scenario_handler scenario_build_prompt)
qed

end
